theory Spec2Isabelle
  imports Main
begin

section \<open>The Irmin REST client (irmin/http.go)\<close>

text \<open>
  A Go \<open>string\<close> and a Go \<open>[]byte\<close> are both byte sequences, and \<open>char\<close> is a byte,
  so both are modelled as \<open>string\<close>; the conversions \<open>string(b)\<close> and \<open>[]byte(s)\<close> are
  the identity. \<open>IrminString\<close> is a named \<open>[]byte\<close> (http.go converts \<open>*[]byte\<close> to
  \<open>*IrminString\<close> and returns an \<open>IrminString\<close> as \<open>[]byte\<close>), and its \<open>String()\<close>
  method is that conversion. \<open>IrminPath\<close> is a slice of segments.
\<close>

type_synonym IrminString = string
type_synonym IrminPath = "IrminString list"

subsection \<open>Errors\<close>

text \<open>
  An error made by \<open>fmt.Errorf\<close> is kept as the format string and the operands of the
  call. An error that comes out of a library or out of the path and value codecs is
  opaque.
\<close>

datatype fmt_arg = ArgS string | ArgD int

datatype error = Errorf string "fmt_arg list" | LibError string

subsection \<open>Data\<close>

type_synonym SubCommandType = int

definition COMMAND_PLAIN :: SubCommandType where "COMMAND_PLAIN = 0"
definition COMMAND_TREE :: SubCommandType where "COMMAND_TREE = 1"
definition COMMAND_TAG :: SubCommandType where "COMMAND_TAG = 2"

record 'r Reply =
  Result :: 'r
  Error :: IrminString
  Version :: IrminString

type_synonym StringArrayReply = "IrminString list Reply"
type_synonym StringReply = "IrminString Reply"
type_synonym ReadReply = StringArrayReply
type_synonym CloneReply = StringReply
type_synonym UpdateReply = StringReply
type_synonym RemoveReply = StringReply

record Task =
  Date :: string
  Uid :: string
  Owner :: IrminString
  Messages :: "IrminString list"

text \<open>\<open>Data\<close> is a \<open>json.RawMessage\<close>; the nil message is the empty one.\<close>

record PostRequest =
  Task :: Task
  Data :: string

record StreamReply =
  sError :: IrminString
  sResult :: string

record 'u RestConn =
  base_uri :: 'u
  tree :: string
  taskowner :: string

subsection \<open>Library functions used by the client\<close>

text \<open>
  \<open>fmt.Sprintf\<close> on string operands, for the formats this file passes to it: literal
  text, \<open>%%\<close> and \<open>%s\<close>. A \<open>%s\<close> with no operand left prints \<open>%!s(MISSING)\<close>, operands
  left over at the end print \<open>%!(EXTRA string=a, string=b)\<close>, a lone \<open>%\<close> at the end
  prints \<open>%!(NOVERB)\<close>. Other verbs do not occur in those formats; the last branch
  copies them.
\<close>

fun extras :: "string list \<Rightarrow> string" where
  "extras [] = []"
| "extras [a] = ''string='' @ a"
| "extras (a # b # bs) = ''string='' @ a @ '', '' @ extras (b # bs)"

fun Sprintf :: "string \<Rightarrow> string list \<Rightarrow> string" where
  "Sprintf [] args = (if args = [] then [] else ''%!(EXTRA '' @ extras args @ '')'')"
| "Sprintf [c] args =
     (if c = CHR ''%'' then ''%!(NOVERB)'' @ Sprintf [] args else c # Sprintf [] args)"
| "Sprintf (c # d # f) args =
     (if c \<noteq> CHR ''%'' then c # Sprintf (d # f) args
      else if d = CHR ''%'' then CHR ''%'' # Sprintf f args
      else if d = CHR ''s'' then
        (case args of
           [] \<Rightarrow> ''%!s(MISSING)'' @ Sprintf f []
         | a # as \<Rightarrow> a @ Sprintf f as)
      else c # d # Sprintf f args)"

text \<open>
  \<open>url.QueryEscape\<close>: letters, digits and \<open>- _ . ~\<close> are kept, a space becomes \<open>+\<close>,
  every other byte becomes \<open>%\<close> and two upper-case hexadecimal digits.
\<close>

definition is_alnum :: "char \<Rightarrow> bool" where
  "is_alnum c = (let n = (of_char c :: nat) in
     (97 \<le> n \<and> n \<le> 122) \<or> (65 \<le> n \<and> n \<le> 90) \<or> (48 \<le> n \<and> n \<le> 57))"

definition shouldEscape :: "char \<Rightarrow> bool" where
  "shouldEscape c =
     (if is_alnum c then False
      else if c = CHR ''-'' \<or> c = CHR ''_'' \<or> c = CHR ''.'' \<or> c = CHR ''~'' then False
      else True)"

definition upperhex :: "nat \<Rightarrow> char" where
  "upperhex n = ''0123456789ABCDEF'' ! (n mod 16)"

fun QueryEscape :: "string \<Rightarrow> string" where
  "QueryEscape [] = []"
| "QueryEscape (c # s) =
     (if c = CHR '' '' then CHR ''+'' # QueryEscape s
      else if shouldEscape c then
        CHR ''%'' # upperhex ((of_char c :: nat) div 16) # upperhex ((of_char c :: nat) mod 16)
          # QueryEscape s
      else c # QueryEscape s)"

text \<open>
  The rest of the libraries and the codecs of \<open>IrminPath\<close> and \<open>IrminString\<close> are
  parameters: \<open>'u\<close> is \<open>url.URL\<close>, \<open>'b\<close> is what a response body holds. An HTTP call
  returns Go's pair of a response (nil or not) and an error (nil or not).
\<close>

record ('u, 'b) lib =
  url_Parse :: "string \<Rightarrow> error + 'u"
  ResolveReference :: "'u \<Rightarrow> 'u \<Rightarrow> 'u"
  url_String :: "'u \<Rightarrow> string"
  path_URL :: "IrminPath \<Rightarrow> 'u"
  path_String :: "IrminPath \<Rightarrow> string"
  ParseEncodedPath :: "string \<Rightarrow> error + IrminPath"
  IrminString_MarshalJSON :: "IrminString \<Rightarrow> error + string"
  json_Marshal_post :: "PostRequest \<Rightarrow> error + string"
  json_Marshal_pair :: "IrminString \<Rightarrow> IrminString \<Rightarrow> error + string"
  json_Unmarshal_strings :: "string \<Rightarrow> StringArrayReply \<Rightarrow> error option \<times> StringArrayReply"
  json_Unmarshal_string :: "string \<Rightarrow> StringReply \<Rightarrow> error option \<times> StringReply"
  json_Unmarshal_path :: "string \<Rightarrow> error + IrminPath"
  http_Get :: "string \<Rightarrow> 'b option \<times> error option"
  http_Post :: "string \<Rightarrow> string \<Rightarrow> string \<Rightarrow> 'b option \<times> error option"

subsection \<open>Connections\<close>

text \<open>
  A \<open>*RestConn\<close> is an address in a store of connections: the index in the list. A nil
  or dangling pointer has no cell, and dereferencing it panics (\<open>None\<close>). \<open>base_uri\<close> is
  a pointer to a URL that no function of the file writes through; it is kept as the
  value.
\<close>

type_synonym 'u store = "'u RestConn list"

definition Create :: "'u store \<Rightarrow> 'u \<Rightarrow> string \<Rightarrow> 'u store \<times> nat" where
  "Create h uri owner =
     (h @ [\<lparr>base_uri = uri, tree = [], taskowner = owner\<rparr>], length h)"

definition FromTree :: "'u store \<Rightarrow> nat \<Rightarrow> string \<Rightarrow> ('u store \<times> nat) option" where
  "FromTree h rest t =
     (if rest < length h then Some (h @ [(h ! rest)\<lparr>tree := t\<rparr>], length h) else None)"

definition SetTaskOwner :: "'u store \<Rightarrow> nat \<Rightarrow> string \<Rightarrow> 'u store option" where
  "SetTaskOwner h rest owner =
     (if rest < length h then Some (h[rest := (h ! rest)\<lparr>taskowner := owner\<rparr>]) else None)"

subsection \<open>The URL of a call\<close>

text \<open>
  \<open>parent_of\<close> is the \<open>switch\<close> of \<open>MakeCallUrl\<close>: the parent command and its
  parameter, both empty at the start, or the error of the \<open>default\<close> branch.
\<close>

definition parent_of :: "'u RestConn \<Rightarrow> SubCommandType \<Rightarrow> error + (string \<times> string)" where
  "parent_of rest ct =
     (if ct = COMMAND_PLAIN then Inr ([], [])
      else if ct = COMMAND_TREE then
        (if tree rest \<noteq> [] then Inr (''tree'', tree rest) else Inr ([], []))
      else if ct = COMMAND_TAG then Inr (''tag'', [])
      else Inl (Errorf ''unknown command type %d'' [ArgD ct]))"

definition MakeCallUrl ::
  "('u, 'b) lib \<Rightarrow> 'u RestConn \<Rightarrow> SubCommandType \<Rightarrow> string \<Rightarrow> IrminPath \<Rightarrow> error + 'u" where
  "MakeCallUrl L rest ct command path =
     (let p = path_URL L path in
      case parent_of rest ct of
        Inl e \<Rightarrow> Inl e
      | Inr (parent_command, parent_param) \<Rightarrow>
          (case (if parent_command = []
                 then url_Parse L (Sprintf ''/%s%s'' [QueryEscape command, url_String L p])
                 else url_Parse L (Sprintf ''/%s/%s/%s/%s%s''
                        [QueryEscape parent_command, QueryEscape parent_param,
                         QueryEscape command, url_String L p])) of
             Inl e \<Rightarrow> Inl e
           | Inr suffix \<Rightarrow> Inr (ResolveReference L (base_uri rest) suffix)))"

subsection \<open>The request executor\<close>

text \<open>
  What a call does to the outside world is a list of events, in order. A call either
  returns or panics.
\<close>

datatype event = Stdout string | Get string | Post string string string | BodyClose

datatype 'a outcome = Panicked | Returned 'a

definition on_return :: "event list \<times> 'a outcome \<Rightarrow> ('a \<Rightarrow> 'b) \<Rightarrow> event list \<times> 'b outcome" where
  "on_return r f = (case r of (evs, Panicked) \<Rightarrow> (evs, Panicked) | (evs, Returned a) \<Rightarrow> (evs, Returned (f a)))"

text \<open>
  \<open>runCommand\<close>: the body of a response is what \<open>ioutil.ReadAll\<close> returns for it.
  \<open>v\<close> is the value behind the pointer the caller passes in, returned as
  \<open>json.Unmarshal\<close> leaves it. In the POST branch \<open>j, err := json.Marshal(post)\<close>
  declares a new \<open>err\<close>, and the error of \<open>http.Post\<close> is assigned to that one: the
  function's own \<open>err\<close> is still nil after the branch, and a nil response panics at
  \<open>res.Body\<close>.
\<close>

definition runCommand ::
  "('u, error + string) lib \<Rightarrow> 'u RestConn \<Rightarrow> SubCommandType \<Rightarrow> string \<Rightarrow> IrminPath \<Rightarrow>
   PostRequest option \<Rightarrow> (string \<Rightarrow> 'v \<Rightarrow> error option \<times> 'v) \<Rightarrow> 'v \<Rightarrow>
   event list \<times> (error option \<times> 'v) outcome" where
  "runCommand L rest ct command path post unmarshal v =
     (case MakeCallUrl L rest ct command path of
        Inl e \<Rightarrow> ([], Returned (Some e, v))
      | Inr uri \<Rightarrow>
          (case (case post of
                   None \<Rightarrow>
                     (case http_Get L (url_String L uri) of
                        (res, err) \<Rightarrow> Inr ([Get (url_String L uri)], res, err))
                 | Some p \<Rightarrow>
                     (case json_Marshal_post L p of
                        Inl e \<Rightarrow> Inl e
                      | Inr j \<Rightarrow>
                          (case http_Post L (url_String L uri) ''application/json'' j of
                             (res, err') \<Rightarrow>
                               Inr ([Stdout (Sprintf ''body %s\<newline>'' [j]),
                                     Post (url_String L uri) ''application/json'' j],
                                    res, None)))) of
             Inl e \<Rightarrow> ([], Panicked)
           | Inr (evs, res, err) \<Rightarrow>
               (case err of
                  Some e \<Rightarrow> (evs, Returned (Some e, v))
                | None \<Rightarrow>
                    (case res of
                       None \<Rightarrow> (evs, Panicked)
                     | Some (Inl e) \<Rightarrow> (evs @ [BodyClose], Returned (Some e, v))
                     | Some (Inr body) \<Rightarrow> (evs @ [BodyClose], Returned (unmarshal body v))))))"

subsection \<open>The operations of a connection\<close>

definition zero_Reply :: "'r \<Rightarrow> 'r Reply" where
  "zero_Reply r = \<lparr>Result = r, Error = [], Version = []\<rparr>"

text \<open>
  \<open>unicode/utf8.Valid\<close>, on the values of the bytes: a byte below 0x80 stands alone;
  0xC2..0xDF starts a sequence of two, 0xE0..0xEF of three, 0xF0..0xF4 of four; the
  second byte is in 0x80..0xBF, narrowed to 0xA0..0xBF after 0xE0, 0x80..0x9F after
  0xED, 0x90..0xBF after 0xF0 and 0x80..0x8F after 0xF4; later bytes are in 0x80..0xBF.
\<close>

fun valid_bytes :: "nat list \<Rightarrow> bool" where
  "valid_bytes [] = True"
| "valid_bytes (b # bs) =
     (if b < 0x80 then valid_bytes bs
      else if b < 0xC2 \<or> 0xF4 < b then False
      else
        (let size = (if b < 0xE0 then 2 else if b < 0xF0 then 3 else (4::nat));
             lo = (if b = 0xE0 then 0xA0 else if b = 0xF0 then 0x90 else (0x80::nat));
             hi = (if b = 0xED then 0x9F else if b = 0xF4 then 0x8F else (0xBF::nat))
         in if length (b # bs) < size then False
            else if bs ! 0 < lo \<or> hi < bs ! 0 then False
            else if size = 2 then valid_bytes (drop 1 bs)
            else if bs ! 1 < 0x80 \<or> 0xBF < bs ! 1 then False
            else if size = 3 then valid_bytes (drop 2 bs)
            else if bs ! 2 < 0x80 \<or> 0xBF < bs ! 2 then False
            else valid_bytes (drop 3 bs)))"

definition utf8_Valid :: "string \<Rightarrow> bool" where
  "utf8_Valid p = valid_bytes (map of_char p)"

definition Read ::
  "('u, error + string) lib \<Rightarrow> 'u RestConn \<Rightarrow> IrminPath \<Rightarrow>
   event list \<times> (string \<times> error option) outcome" where
  "Read L rest path =
     on_return
       (runCommand L rest COMMAND_TREE ''read'' path None (json_Unmarshal_strings L) (zero_Reply []))
       (\<lambda>(err, data).
          case err of
            Some e \<Rightarrow> ([], Some e)
          | None \<Rightarrow>
              if Error data \<noteq> [] then ([], Some (Errorf (Error data) []))
              else if length (Result data) > 1 then
                ([], Some (Errorf ''read %s returned more than one result''
                             [ArgS (path_String L path)]))
              else if length (Result data) = 1 then (Result data ! 0, None)
              else ([], Some (Errorf ''invalid key %s'' [ArgS (path_String L path)])))"

definition ReadString ::
  "('u, error + string) lib \<Rightarrow> 'u RestConn \<Rightarrow> IrminPath \<Rightarrow>
   event list \<times> (string \<times> error option) outcome" where
  "ReadString L rest path =
     on_return (Read L rest path)
       (\<lambda>(res, err).
          case err of
            Some e \<Rightarrow> ([], Some e)
          | None \<Rightarrow>
              if utf8_Valid res then (res, None)
              else ([], Some (Errorf ''path %s does not contain a valid utf8 string''
                                [ArgS (path_String L path)])))"

text \<open>
  \<open>contents\<close> is the byte slice behind the pointer the caller passes (a nil pointer is
  not modelled).
\<close>

definition Update ::
  "('u, error + string) lib \<Rightarrow> 'u RestConn \<Rightarrow> Task \<Rightarrow> IrminPath \<Rightarrow> string \<Rightarrow>
   event list \<times> (string \<times> error option) outcome" where
  "Update L rest t path contents =
     (case IrminString_MarshalJSON L contents of
        Inl e \<Rightarrow> ([], Returned ([], Some e))
      | Inr d \<Rightarrow>
          on_return
            (runCommand L rest COMMAND_TREE ''update'' path (Some \<lparr>Task = t, Data = d\<rparr>)
               (json_Unmarshal_string L) (zero_Reply []))
            (\<lambda>(err, data).
               case err of
                 Some e \<Rightarrow> (Result data, Some e)
               | None \<Rightarrow>
                   if Error data \<noteq> [] then ([], Some (Errorf (Error data) []))
                   else if Result data = [] then
                     ([], Some (Errorf ''update seemed to succeed, but didn't return a hash''
                                  [ArgS (path_String L path), ArgS (Result data)]))
                   else (Result data, None)))"

definition Remove ::
  "('u, error + string) lib \<Rightarrow> 'u RestConn \<Rightarrow> Task \<Rightarrow> IrminPath \<Rightarrow>
   event list \<times> error option outcome" where
  "Remove L rest t path =
     on_return
       (runCommand L rest COMMAND_TREE ''remove'' path (Some \<lparr>Task = t, Data = []\<rparr>)
          (json_Unmarshal_string L) (zero_Reply []))
       (\<lambda>(err, data).
          case err of
            Some e \<Rightarrow> Some e
          | None \<Rightarrow>
              if Error data \<noteq> [] then Some (Errorf (Error data) [])
              else if length (Result data) > 1 then
                Some (Errorf ''remove %s returned more than one result''
                        [ArgS (path_String L path)])
              else None)"

definition RemoveRec ::
  "('u, error + string) lib \<Rightarrow> 'u RestConn \<Rightarrow> Task \<Rightarrow> IrminPath \<Rightarrow>
   event list \<times> error option outcome" where
  "RemoveRec L rest t path =
     on_return
       (runCommand L rest COMMAND_TREE ''remove-rec'' path (Some \<lparr>Task = t, Data = []\<rparr>)
          (json_Unmarshal_string L) (zero_Reply []))
       (\<lambda>(err, data).
          case err of
            Some e \<Rightarrow> Some e
          | None \<Rightarrow>
              if Error data \<noteq> [] then Some (Errorf (Error data) [])
              else if length (Result data) > 1 then
                Some (Errorf ''remove %s returned more than one result''
                        [ArgS (path_String L path)])
              else None)"

definition Clone ::
  "('u, error + string) lib \<Rightarrow> 'u RestConn \<Rightarrow> string \<Rightarrow> bool \<Rightarrow>
   event list \<times> error option outcome" where
  "Clone L rest name force =
     (case ParseEncodedPath L (QueryEscape name) of
        Inl e \<Rightarrow> ([], Returned (Some e))
      | Inr path \<Rightarrow>
          (let command = (if force then ''clone-force'' else ''clone'') in
           on_return
             (runCommand L rest COMMAND_TREE command path None
                (json_Unmarshal_string L) (zero_Reply []))
             (\<lambda>(err, data).
                case err of
                  Some e \<Rightarrow> Some e
                | None \<Rightarrow>
                    if Error data \<noteq> [] then Some (Errorf (Error data) [])
                    else if length (Result data) > 1 then
                      Some (Errorf ''%s %s returned more than one result''
                              [ArgS command, ArgS name])
                    else if Result data \<noteq> ''ok'' \<or> (Result data = [] \<and> force) then
                      Some (Errorf (Result data) [])
                    else None)))"

definition CompareAndSet ::
  "('u, error + string) lib \<Rightarrow> 'u RestConn \<Rightarrow> Task \<Rightarrow> IrminPath \<Rightarrow> string \<Rightarrow> string \<Rightarrow>
   event list \<times> (string \<times> error option) outcome" where
  "CompareAndSet L rest t path oldcontents contents =
     (case json_Marshal_pair L oldcontents contents of
        Inl e \<Rightarrow> ([], Returned ([], Some e))
      | Inr d \<Rightarrow>
          on_return
            (runCommand L rest COMMAND_TREE ''compare-and-set'' path
               (Some \<lparr>Task = t, Data = d\<rparr>) (json_Unmarshal_string L) (zero_Reply []))
            (\<lambda>(err, data).
               case err of
                 Some e \<Rightarrow> (Result data, Some e)
               | None \<Rightarrow>
                   if Error data \<noteq> [] then ([], Some (Errorf (Error data) []))
                   else if Result data = [] then
                     ([], Some (Errorf ''compare-and-set seemed to succeed, but didn't return a hash''
                                  [ArgS (path_String L path), ArgS (Result data)]))
                   else (Result data, None)))"

subsection \<open>The stream executor\<close>

text \<open>
  The body of a streamed response, as \<open>json.Decoder\<close> reads it: whether the first
  token can be read (\<open>token_err\<close> is the error of \<open>dec.Token()\<close>), the elements that
  follow, and whether the closing bracket arrives (\<open>closing\<close>) or the input just
  ends. The decoder is at the front of the list of elements; \<open>dec.More()\<close> is \<open>True\<close> while the list is
  not empty, and \<open>False\<close> at the closing bracket and at the end of the input alike.

  An element is either not decodable at all (bad syntax, cut off, or not an object),
  or an object; of an object the decoder sees each of the four keys the structs of
  the file name: absent, present with a value the field's type rejects, or present
  with a value. Decoding into a struct leaves a field whose key is absent as it was.
\<close>

datatype 'a field = Absent | Invalid | Present 'a

datatype element =
  Undecodable
| Object (f_stream: "IrminString field") (f_version: "IrminString field")
    (f_error: "IrminString field") (f_result: "string field")

record stream_body =
  token_err :: "error option"
  elements :: "element list"
  closing :: bool

definition json_error :: error where
  "json_error = LibError ''json: cannot decode''"

definition no_value :: error where
  "no_value = LibError ''json: no value to decode''"

text \<open>\<open>dec.Decode(&stream_token)\<close> on one element; \<open>tok\<close> is \<open>stream_token.Stream\<close> before.\<close>

fun Decode_stream_token :: "IrminString \<Rightarrow> element \<Rightarrow> error + IrminString" where
  "Decode_stream_token tok Undecodable = Inl json_error"
| "Decode_stream_token tok (Object st ve er re) =
     (case st of Absent \<Rightarrow> Inr tok | Invalid \<Rightarrow> Inl json_error | Present v \<Rightarrow> Inr v)"

text \<open>\<open>dec.Decode(&version)\<close> on one element; only its error is used.\<close>

fun Decode_version :: "element \<Rightarrow> error option" where
  "Decode_version Undecodable = Some json_error"
| "Decode_version (Object st ve er re) =
     (case ve of Invalid \<Rightarrow> Some json_error | _ \<Rightarrow> None)"

text \<open>\<open>dec.Decode(s)\<close> on one element, \<open>s\<close> a new \<open>StreamReply\<close>.\<close>

fun Decode_StreamReply :: "element \<Rightarrow> error + StreamReply" where
  "Decode_StreamReply Undecodable = Inl json_error"
| "Decode_StreamReply (Object st ve er re) =
     (case er of
        Invalid \<Rightarrow> Inl json_error
      | _ \<Rightarrow>
          (case re of
             Invalid \<Rightarrow> Inl json_error
           | _ \<Rightarrow>
               Inr \<lparr>sError = (case er of Present e \<Rightarrow> e | _ \<Rightarrow> []),
                    sResult = (case re of Present r \<Rightarrow> r | _ \<Rightarrow> [])\<rparr>))"

text \<open>
  The loop of the decoding goroutine. The result is the frames it sends on the
  channel, in order, as a consumer that keeps receiving gets them, and why the loop
  ended; after the loop the channel is closed, whatever the reason, and the reason is
  not sent anywhere.
\<close>

datatype stop = Drained | Failed error | EndToken

fun decode_loop :: "IrminString \<Rightarrow> element list \<Rightarrow> StreamReply list \<times> stop" where
  "decode_loop tok [] = ([], Drained)"
| "decode_loop tok (e # es) =
     (case Decode_StreamReply e of
        Inl err \<Rightarrow> ([], Failed err)
      | Inr s \<Rightarrow>
          if length (sResult s) = 0 then
            (case es of
               [] \<Rightarrow> ([], Failed no_value)
             | e' # es' \<Rightarrow>
                 (case Decode_stream_token tok e' of
                    Inl err \<Rightarrow> ([], Failed err)
                  | Inr tok' \<Rightarrow>
                      if tok' = ''end'' then ([], EndToken)
                      else (case decode_loop tok' es' of (fs, r) \<Rightarrow> (s # fs, r))))
          else (case decode_loop tok es of (fs, r) \<Rightarrow> (s # fs, r)))"


text \<open>
  \<open>runStreamCommand\<close> returns the channel (nil or not) and the error (nil or not). The
  channel is given by the frames sent on it before it is closed. \<open>decode_header\<close> is
  the part of the function from \<open>json.NewDecoder\<close> to its last \<open>return\<close>: the opening
  token, the start token, the version token, then the goroutine is started.
\<close>

definition decode_header :: "stream_body \<Rightarrow> StreamReply list option \<times> error option" where
  "decode_header body =
     (case token_err body of
        Some e \<Rightarrow> (None, Some e)
      | None \<Rightarrow>
          (case elements body of
             [] \<Rightarrow> (None, Some no_value)
           | e # es \<Rightarrow>
               (case Decode_stream_token [] e of
                  Inl e \<Rightarrow> (None, Some e)
                | Inr tok \<Rightarrow>
                    if tok \<noteq> ''start'' then (None, None)
                    else
                      (case es of
                         [] \<Rightarrow> (None, Some no_value)
                       | v # es' \<Rightarrow>
                           (case Decode_version v of
                              Some e \<Rightarrow> (None, Some e)
                            | None \<Rightarrow> (Some (fst (decode_loop tok es')), None))))))"

definition runStreamCommand ::
  "('u, stream_body) lib \<Rightarrow> 'u RestConn \<Rightarrow> SubCommandType \<Rightarrow> string \<Rightarrow> IrminPath \<Rightarrow>
   PostRequest option \<Rightarrow> event list \<times> (StreamReply list option \<times> error option) outcome" where
  "runStreamCommand L rest ct command path post =
     (case MakeCallUrl L rest ct command path of
        Inl e \<Rightarrow> ([], Returned (None, Some e))
      | Inr uri \<Rightarrow>
          (case (case post of
                   None \<Rightarrow>
                     (case http_Get L (url_String L uri) of
                        (res, err) \<Rightarrow> Inr ([Get (url_String L uri)], res, err))
                 | Some p \<Rightarrow>
                     (case json_Marshal_post L p of
                        Inl e \<Rightarrow> Inl e
                      | Inr j \<Rightarrow>
                          (case http_Post L (url_String L uri) ''application/json'' j of
                             (res, err') \<Rightarrow>
                               Inr ([Post (url_String L uri) ''application/json'' j],
                                    res, None)))) of
             Inl e \<Rightarrow> ([], Panicked)
           | Inr (evs, res, err) \<Rightarrow>
               (case err of
                  Some e \<Rightarrow> (evs, Returned (None, Some e))
                | None \<Rightarrow>
                    (case res of
                       None \<Rightarrow> (evs, Panicked)
                     | Some body \<Rightarrow> (evs, Returned (decode_header body))))))"

text \<open>
  \<open>Iter\<close>: the channel it returns is given by the paths sent on it and by how the
  forwarding goroutine ends: it closes the channel, or it panics on a frame whose
  result does not decode into a path.
\<close>

datatype chan_end = Closed | Crashed error

fun iter_loop :: "('u, 'b) lib \<Rightarrow> StreamReply list \<Rightarrow> IrminPath list \<times> chan_end" where
  "iter_loop L [] = ([], Closed)"
| "iter_loop L (m # ms) =
     (case json_Unmarshal_path L (sResult m) of
        Inl e \<Rightarrow> ([], Crashed e)
      | Inr p \<Rightarrow> (case iter_loop L ms of (ps, c) \<Rightarrow> (p # ps, c)))"

definition Iter ::
  "('u, stream_body) lib \<Rightarrow> 'u RestConn \<Rightarrow>
   event list \<times> ((IrminPath list \<times> chan_end) option \<times> error option) outcome" where
  "Iter L rest =
     on_return (runStreamCommand L rest COMMAND_TREE ''iter'' [] None)
       (\<lambda>(ch, err).
          case err of
            Some e \<Rightarrow> (None, err)
          | None \<Rightarrow> (case ch of None \<Rightarrow> (None, err) | Some fs \<Rightarrow> (Some (iter_loop L fs), err)))"

subsection \<open>Closing the body of a streamed response\<close>

text \<open>
  The goroutines of a streamed call, from the point where \<open>http.Get\<close> or \<open>http.Post\<close>
  has returned the response and \<open>runStreamCommand\<close> has set the wait group to one and
  started the goroutine that waits for it and closes the body. The body arrives over
  time: \<open>opened\<close> says that its start has arrived, \<open>inbox\<close> holds the elements that
  have arrived and that \<open>json.Decoder\<close> has not read yet, \<open>pending\<close> those still to
  come, \<open>ended\<close> says that the end of the input (the closing bracket or the end of the
  data) has arrived. The client sets no timeout, so a read waits for as long as the
  server sends nothing. A response is finite here. The channel has a buffer of \<open>cap\<close>
  frames; the source makes it 100.

  Each program counter names the statement the goroutine executes next, and \<open>step\<close> is
  one statement of one goroutine, or one action of the consumer or of the server;
  it is \<open>None\<close> when that one is blocked or has ended. \<open>stream_token\<close> is the variable
  of that name, which the caller and the decoder share.
\<close>

datatype caller_pc = C_token | C_start | C_version | C_add | C_go | C_return | C_done
datatype closer_pc = W_wait | W_close | W_done
datatype decoder_pc =
  D_none | D_more | D_token StreamReply | D_send StreamReply | D_close | D_finish | D_done
datatype thread = Caller | Closer | Decoder | Receiver | Abandon | Server

record sys =
  wg :: int
  caller :: caller_pc
  closer :: closer_pc
  closes :: nat
  decoder :: decoder_pc
  stream_token :: IrminString
  opened :: bool
  inbox :: "element list"
  pending :: "element list"
  ended :: bool
  chan :: "StreamReply list"
  chan_closed :: bool
  active :: bool
  received :: "StreamReply list"

definition init_sys :: "stream_body \<Rightarrow> sys" where
  "init_sys body =
     \<lparr>wg = 1, caller = C_token, closer = W_wait, closes = 0, decoder = D_none,
      stream_token = [], opened = False, inbox = [], pending = elements body, ended = False,
      chan = [], chan_closed = False, active = True, received = []\<rparr>"

text \<open>
  The caller, \<open>runStreamCommand\<close> from \<open>json.NewDecoder\<close> on: \<open>dec.Token()\<close>, the start
  token, the version token, \<open>wg.Add(1)\<close>, the \<open>go\<close> statement, and the \<open>return\<close> with
  its deferred \<open>wg.Done()\<close>. A read waits while what it needs has not arrived.
\<close>

definition step_Caller :: "stream_body \<Rightarrow> sys \<Rightarrow> sys option" where
  "step_Caller body s =
     (case caller s of
        C_token \<Rightarrow>
          if opened s
          then (case token_err body of
                  Some e \<Rightarrow> Some (s\<lparr>caller := C_return\<rparr>)
                | None \<Rightarrow> Some (s\<lparr>caller := C_start\<rparr>))
          else None
      | C_start \<Rightarrow>
          (case inbox s of
             [] \<Rightarrow> if ended s then Some (s\<lparr>caller := C_return\<rparr>) else None
           | e # es \<Rightarrow>
               (case Decode_stream_token (stream_token s) e of
                  Inl err \<Rightarrow> Some (s\<lparr>inbox := es, caller := C_return\<rparr>)
                | Inr tok \<Rightarrow>
                    if tok \<noteq> ''start''
                    then Some (s\<lparr>inbox := es, stream_token := tok, caller := C_return\<rparr>)
                    else Some (s\<lparr>inbox := es, stream_token := tok, caller := C_version\<rparr>)))
      | C_version \<Rightarrow>
          (case inbox s of
             [] \<Rightarrow> if ended s then Some (s\<lparr>caller := C_return\<rparr>) else None
           | v # es \<Rightarrow>
               (case Decode_version v of
                  Some err \<Rightarrow> Some (s\<lparr>inbox := es, caller := C_return\<rparr>)
                | None \<Rightarrow> Some (s\<lparr>inbox := es, caller := C_add\<rparr>)))
      | C_add \<Rightarrow> Some (s\<lparr>wg := wg s + 1, caller := C_go\<rparr>)
      | C_go \<Rightarrow> Some (s\<lparr>decoder := D_more, caller := C_return\<rparr>)
      | C_return \<Rightarrow> Some (s\<lparr>wg := wg s - 1, caller := C_done\<rparr>)
      | C_done \<Rightarrow> None)"

text \<open>The goroutine that waits for the wait group and closes the body.\<close>

definition step_Closer :: "sys \<Rightarrow> sys option" where
  "step_Closer s =
     (case closer s of
        W_wait \<Rightarrow> if wg s = 0 then Some (s\<lparr>closer := W_close\<rparr>) else None
      | W_close \<Rightarrow> Some (s\<lparr>closes := closes s + 1, closer := W_done\<rparr>)
      | W_done \<Rightarrow> None)"

text \<open>
  The decoding goroutine: \<open>dec.More()\<close> with \<open>dec.Decode(s)\<close>, the
  \<open>dec.Decode(&stream_token)\<close> after a frame with an empty result, the send, and the
  deferred \<open>close(ch)\<close> and \<open>wg.Done()\<close>. A read waits for input; the send waits for
  room in the buffer.
\<close>

definition step_Decoder :: "nat \<Rightarrow> sys \<Rightarrow> sys option" where
  "step_Decoder cap s =
     (case decoder s of
        D_none \<Rightarrow> None
      | D_more \<Rightarrow>
          (case inbox s of
             [] \<Rightarrow> if ended s then Some (s\<lparr>decoder := D_close\<rparr>) else None
           | e # es \<Rightarrow>
               (case Decode_StreamReply e of
                  Inl err \<Rightarrow> Some (s\<lparr>inbox := es, decoder := D_close\<rparr>)
                | Inr r \<Rightarrow>
                    if length (sResult r) = 0
                    then Some (s\<lparr>inbox := es, decoder := D_token r\<rparr>)
                    else Some (s\<lparr>inbox := es, decoder := D_send r\<rparr>)))
      | D_token r \<Rightarrow>
          (case inbox s of
             [] \<Rightarrow> if ended s then Some (s\<lparr>decoder := D_close\<rparr>) else None
           | e # es \<Rightarrow>
               (case Decode_stream_token (stream_token s) e of
                  Inl err \<Rightarrow> Some (s\<lparr>inbox := es, decoder := D_close\<rparr>)
                | Inr tok \<Rightarrow>
                    if tok = ''end''
                    then Some (s\<lparr>inbox := es, stream_token := tok, decoder := D_close\<rparr>)
                    else Some (s\<lparr>inbox := es, stream_token := tok, decoder := D_send r\<rparr>)))
      | D_send r \<Rightarrow>
          if length (chan s) < cap
          then Some (s\<lparr>chan := chan s @ [r], decoder := D_more\<rparr>)
          else None
      | D_close \<Rightarrow> Some (s\<lparr>chan_closed := True, decoder := D_finish\<rparr>)
      | D_finish \<Rightarrow> Some (s\<lparr>wg := wg s - 1, decoder := D_done\<rparr>)
      | D_done \<Rightarrow> None)"

text \<open>The consumer: it receives, or it abandons the sequence.\<close>

definition step_Receiver :: "sys \<Rightarrow> sys option" where
  "step_Receiver s =
     (if active s
      then (case chan s of
              [] \<Rightarrow> None
            | f # fs \<Rightarrow> Some (s\<lparr>chan := fs, received := received s @ [f]\<rparr>))
      else None)"

definition step_Abandon :: "sys \<Rightarrow> sys option" where
  "step_Abandon s = (if active s then Some (s\<lparr>active := False\<rparr>) else None)"

text \<open>
  The server: the start of the body arrives, then one element after the other, then
  the end of the input. It may stop at any point: then this step is never taken.
\<close>

definition step_Server :: "sys \<Rightarrow> sys option" where
  "step_Server s =
     (if \<not> opened s then Some (s\<lparr>opened := True\<rparr>)
      else (case pending s of
              e # es \<Rightarrow> Some (s\<lparr>inbox := inbox s @ [e], pending := es\<rparr>)
            | [] \<Rightarrow> if ended s then None else Some (s\<lparr>ended := True\<rparr>)))"

fun step :: "nat \<Rightarrow> stream_body \<Rightarrow> thread \<Rightarrow> sys \<Rightarrow> sys option" where
  "step cap body Caller s = step_Caller body s"
| "step cap body Closer s = step_Closer s"
| "step cap body Decoder s = step_Decoder cap s"
| "step cap body Receiver s = step_Receiver s"
| "step cap body Abandon s = step_Abandon s"
| "step cap body Server s = step_Server s"

inductive reachable :: "nat \<Rightarrow> stream_body \<Rightarrow> sys \<Rightarrow> bool" for cap body where
  start: "reachable cap body (init_sys body)"
| after: "reachable cap body s \<Longrightarrow> step cap body t s = Some s' \<Longrightarrow> reachable cap body s'"

fun run :: "nat \<Rightarrow> stream_body \<Rightarrow> thread list \<Rightarrow> sys \<Rightarrow> sys option" where
  "run cap body [] s = Some s"
| "run cap body (t # ts) s =
     (case step cap body t s of None \<Rightarrow> None | Some s' \<Rightarrow> run cap body ts s')"

text \<open>
  \<open>quiescent\<close>: no goroutine of the client and no receive can take a step.
  \<open>send_blocked\<close>: the decoder waits to send and the buffer is full. \<open>starved\<close>: the
  caller or the decoder waits for a part of the response that has not arrived.
\<close>

definition quiescent :: "nat \<Rightarrow> stream_body \<Rightarrow> sys \<Rightarrow> bool" where
  "quiescent cap body s =
     (step cap body Caller s = None \<and> step cap body Closer s = None \<and>
      step cap body Decoder s = None \<and> step cap body Receiver s = None)"

definition send_blocked :: "nat \<Rightarrow> sys \<Rightarrow> bool" where
  "send_blocked cap s =
     (case decoder s of D_send r \<Rightarrow> cap \<le> length (chan s) | _ \<Rightarrow> False)"

definition starved :: "sys \<Rightarrow> bool" where
  "starved s =
     (case caller s of
        C_token \<Rightarrow> \<not> opened s
      | C_start \<Rightarrow> inbox s = [] \<and> \<not> ended s
      | C_version \<Rightarrow> inbox s = [] \<and> \<not> ended s
      | _ \<Rightarrow>
          (case decoder s of
             D_more \<Rightarrow> inbox s = [] \<and> \<not> ended s
           | D_token r \<Rightarrow> inbox s = [] \<and> \<not> ended s
           | _ \<Rightarrow> False))"

text \<open>
  What holds in every reachable state: the wait group counts the caller until it has
  returned and the decoder from \<open>wg.Add(1)\<close> until its \<open>wg.Done()\<close>; the decoder does
  not exist before it is started; the body has been closed once the closer is past
  its \<open>Close\<close>, and not before; the closer is past its wait only when the wait group
  is zero.
\<close>

definition decoder_running :: "decoder_pc \<Rightarrow> bool" where
  "decoder_running d = (d \<noteq> D_none \<and> d \<noteq> D_done)"

definition expected_wg :: "caller_pc \<Rightarrow> decoder_pc \<Rightarrow> int" where
  "expected_wg c d =
     (if c = C_done then 0 else 1) + (if c = C_go \<or> decoder_running d then 1 else 0)"

definition not_spawned :: "caller_pc \<Rightarrow> bool" where
  "not_spawned c = (c \<noteq> C_return \<and> c \<noteq> C_done)"

fun expected_closes :: "closer_pc \<Rightarrow> nat" where
  "expected_closes W_wait = 0"
| "expected_closes W_close = 0"
| "expected_closes W_done = 1"

definition wg_inv :: "sys \<Rightarrow> bool" where
  "wg_inv s =
     (wg s = expected_wg (caller s) (decoder s)
      \<and> (if not_spawned (caller s) then decoder s = D_none else True)
      \<and> closes s = expected_closes (closer s)
      \<and> (if closer s = W_wait then True else wg s = 0))"



text \<open>The number of steps a state still allows is bounded by its weight.\<close>

fun caller_weight :: "caller_pc \<Rightarrow> nat" where
  "caller_weight C_token = 9"
| "caller_weight C_start = 8"
| "caller_weight C_version = 7"
| "caller_weight C_add = 6"
| "caller_weight C_go = 5"
| "caller_weight C_return = 1"
| "caller_weight C_done = 0"

fun closer_weight :: "closer_pc \<Rightarrow> nat" where
  "closer_weight W_wait = 2"
| "closer_weight W_close = 1"
| "closer_weight W_done = 0"

fun decoder_weight :: "decoder_pc \<Rightarrow> nat" where
  "decoder_weight D_none = 0"
| "decoder_weight D_more = 3"
| "decoder_weight (D_token r) = 4"
| "decoder_weight (D_send r) = 5"
| "decoder_weight D_close = 2"
| "decoder_weight D_finish = 1"
| "decoder_weight D_done = 0"

fun unit_if :: "bool \<Rightarrow> nat" where
  "unit_if True = 1"
| "unit_if False = 0"

definition weight :: "sys \<Rightarrow> nat" where
  "weight s =
     caller_weight (caller s) + closer_weight (closer s) + decoder_weight (decoder s)
     + 3 * length (inbox s) + 4 * length (pending s) + length (chan s)
     + unit_if (active s) + unit_if (\<not> opened s) + unit_if (\<not> ended s)"


subsection \<open>A server for the examples\<close>

text \<open>
  An instance of the libraries for evaluating the client on examples: a URL is its
  text, every URL parses, a reference is resolved by appending it, a path is printed
  with a slash before each segment, and the server answers every request with the
  same response, which decodes into the given replies.
\<close>

definition slashes :: "IrminPath \<Rightarrow> string" where
  "slashes p = concat (map (\<lambda>s. CHR ''/'' # s) p)"

definition fake_lib ::
  "'b option \<times> error option \<Rightarrow> StringArrayReply \<Rightarrow> StringReply \<Rightarrow> (string, 'b) lib" where
  "fake_lib resp ra rs =
     \<lparr>url_Parse = Inr,
      ResolveReference = (\<lambda>b r. b @ r),
      url_String = (\<lambda>u. u),
      path_URL = slashes,
      path_String = slashes,
      ParseEncodedPath = (\<lambda>s. Inr [s]),
      IrminString_MarshalJSON = Inr,
      json_Marshal_post = (\<lambda>p. Inr (''task by '' @ Owner (Task p) @ '' params '' @ Data p)),
      json_Marshal_pair = (\<lambda>a b. Inr (a @ '','' @ b)),
      json_Unmarshal_strings = (\<lambda>b v. (None, ra)),
      json_Unmarshal_string = (\<lambda>b v. (None, rs)),
      json_Unmarshal_path = (\<lambda>s. if s = [] then Inl json_error else Inr [s]),
      http_Get = (\<lambda>u. resp),
      http_Post = (\<lambda>u c b. resp)\<rparr>"

definition conn0 :: "string RestConn" where
  "conn0 = \<lparr>base_uri = ''http://127.0.0.1:8080'', tree = [], taskowner = ''tree''\<rparr>"

definition task0 :: Task where
  "task0 = \<lparr>Date = ''1446400000'', Uid = ''0'', Owner = ''tree'', Messages = [''msg'']\<rparr>"

definition ok_body :: "(error + string) option \<times> error option" where
  "ok_body = (Some (Inr ''{}''), None)"

text \<open>Elements of a streamed response, and a server that streams them.\<close>

definition start_token :: element where
  "start_token = Object (Present ''start'') Absent Absent Absent"

definition end_token :: element where
  "end_token = Object (Present ''end'') Absent Absent Absent"

definition version_token :: element where
  "version_token = Object Absent (Present ''v1'') Absent Absent"

definition frame :: "string \<Rightarrow> element" where
  "frame r = Object Absent Absent Absent (Present r)"


definition fake_stream :: "element list \<Rightarrow> bool \<Rightarrow> (string, stream_body) lib" where
  "fake_stream es c =
     fake_lib (Some \<lparr>token_err = None, elements = es, closing = c\<rparr>, None)
       (zero_Reply []) (zero_Reply [])"

text \<open>
  A complete response with \<open>n\<close> frames, and four states of calls on such responses:
  stuck on 101 frames after the consumer has abandoned the sequence; at the end of a
  call on one frame; at the end of a call on two frames that the consumer abandoned
  at once; waiting for the version token of a server that sends nothing more.
\<close>

definition stream_of :: "nat \<Rightarrow> stream_body" where
  "stream_of n =
     \<lparr>token_err = None,
      elements = start_token # version_token # replicate n (frame ''x'') @ [end_token],
      closing = True\<rparr>"

definition frame_x :: StreamReply where
  "frame_x = \<lparr>sError = [], sResult = ''x''\<rparr>"

definition leaked :: sys where
  "leaked =
     \<lparr>wg = 1, caller = C_done, closer = W_wait, closes = 0, decoder = D_send frame_x,
      stream_token = ''start'', opened = True, inbox = [end_token], pending = [], ended = True,
      chan = replicate 100 frame_x, chan_closed = False, active = False, received = []\<rparr>"

definition finished :: sys where
  "finished =
     \<lparr>wg = 0, caller = C_done, closer = W_done, closes = 1, decoder = D_done,
      stream_token = ''start'', opened = True, inbox = [], pending = [], ended = True,
      chan = [], chan_closed = True, active = True, received = [frame_x]\<rparr>"

definition abandoned_fits :: sys where
  "abandoned_fits =
     \<lparr>wg = 0, caller = C_done, closer = W_done, closes = 1, decoder = D_done,
      stream_token = ''start'', opened = True, inbox = [], pending = [], ended = True,
      chan = [frame_x, frame_x], chan_closed = True, active = False, received = []\<rparr>"

definition stalled :: sys where
  "stalled =
     \<lparr>wg = 1, caller = C_version, closer = W_wait, closes = 0, decoder = D_none,
      stream_token = ''start'', opened = True, inbox = [],
      pending = [version_token, frame ''x'', end_token], ended = False,
      chan = [], chan_closed = False, active = True, received = []\<rparr>"

subsection \<open>Reading a trace\<close>

text \<open>The lines written to the standard output, in order.\<close>

fun stdout_of :: "event list \<Rightarrow> string list" where
  "stdout_of [] = []"
| "stdout_of (Stdout s # es) = s # stdout_of es"
| "stdout_of (e # es) = stdout_of es"

text \<open>
  \<open>announced j evs\<close>: every POST of the trace carries the body \<open>j\<close> and comes right
  after the line \<open>body j\<close> on the standard output.
\<close>

fun announced :: "string \<Rightarrow> event list \<Rightarrow> bool" where
  "announced j [] = True"
| "announced j (Stdout s # Post u c b # es) =
     (s = ''body '' @ j @ ''\<newline>'' \<and> b = j \<and> announced j es)"
| "announced j (Post u c b # es) = False"
| "announced j (e # es) = announced j es"

section \<open>Properties\<close>

subsection \<open>Auxiliary facts\<close>

lemma Sprintf_tree:
  "Sprintf ''/%s/%s/%s/%s%s'' [a, b, c, d] =
     ''/'' @ a @ ''/'' @ b @ ''/'' @ c @ ''/'' @ d @ ''%!s(MISSING)''"
  by simp

lemma Sprintf_plain: "Sprintf ''/%s%s'' [a, b] = ''/'' @ a @ b"
  by simp

lemma Sprintf_body: "Sprintf ''body %s\<newline>'' [j] = ''body '' @ j @ ''\<newline>''"
  by simp

lemma QueryEscape_tree: "QueryEscape ''tree'' = ''tree''"
  by code_simp

lemma QueryEscape_foo: "QueryEscape ''foo'' = ''foo''"
  by code_simp

lemma QueryEscape_read: "QueryEscape ''read'' = ''read''"
  by code_simp

lemma QueryEscape_update: "QueryEscape ''update'' = ''update''"
  by code_simp

lemma MakeCallUrl_no_tree:
  "tree rest = [] \<Longrightarrow> MakeCallUrl L rest COMMAND_TREE command path =
     (case url_Parse L (''/'' @ QueryEscape command @ url_String L (path_URL L path)) of
        Inl e \<Rightarrow> Inl e
      | Inr suffix \<Rightarrow> Inr (ResolveReference L (base_uri rest) suffix))"
  by (simp add: MakeCallUrl_def parent_of_def COMMAND_TREE_def COMMAND_PLAIN_def
        Sprintf_plain del: Sprintf.simps QueryEscape.simps)

lemma MakeCallUrl_fake:
  "MakeCallUrl (fake_lib resp ra rs) conn0 COMMAND_TREE command path =
     Inr (''http://127.0.0.1:8080/'' @ QueryEscape command @ slashes path)"
  by (simp add: MakeCallUrl_no_tree conn0_def fake_lib_def del: QueryEscape.simps)

lemma fst_on_return: "fst (on_return r f) = fst r"
  by (cases r) (simp add: on_return_def split: outcome.split)

lemma runCommand_fake:
  "runCommand (fake_lib ok_body ra rs) conn0 COMMAND_TREE command path None um v =
     ([Get (''http://127.0.0.1:8080/'' @ QueryEscape command @ slashes path), BodyClose],
      Returned (um ''{}'' v))"
  by (simp add: runCommand_def MakeCallUrl_fake del: QueryEscape.simps)
     (simp add: fake_lib_def ok_body_def)

lemma runCommand_fake_post:
  "runCommand (fake_lib ok_body ra rs) conn0 COMMAND_TREE command path (Some p) um v =
     ([Stdout (''body task by '' @ Owner (Task p) @ '' params '' @ Data p @ ''\<newline>''),
       Post (''http://127.0.0.1:8080/'' @ QueryEscape command @ slashes path)
         ''application/json'' (''task by '' @ Owner (Task p) @ '' params '' @ Data p),
       BodyClose],
      Returned (um ''{}'' v))"
  by (simp add: runCommand_def MakeCallUrl_fake del: QueryEscape.simps)
     (simp add: fake_lib_def ok_body_def)

lemma runCommand_get_events:
  "fst (runCommand L rest ct command path None um v) =
     (case MakeCallUrl L rest ct command path of
        Inl e \<Rightarrow> []
      | Inr uri \<Rightarrow>
          (case http_Get L (url_String L uri) of
             (Some b, None) \<Rightarrow> [Get (url_String L uri), BodyClose]
           | _ \<Rightarrow> [Get (url_String L uri)]))"
  by (simp add: runCommand_def split: sum.split prod.split option.split)

lemma runCommand_post_events:
  "fst (runCommand L rest ct command path (Some p) um v) =
     (case MakeCallUrl L rest ct command path of
        Inl e \<Rightarrow> []
      | Inr uri \<Rightarrow>
          (case json_Marshal_post L p of
             Inl e \<Rightarrow> []
           | Inr j \<Rightarrow>
               (case fst (http_Post L (url_String L uri) ''application/json'' j) of
                  None \<Rightarrow>
                    [Stdout (''body '' @ j @ ''\<newline>''),
                     Post (url_String L uri) ''application/json'' j]
                | Some b \<Rightarrow>
                    [Stdout (''body '' @ j @ ''\<newline>''),
                     Post (url_String L uri) ''application/json'' j, BodyClose])))"
  by (simp add: runCommand_def Sprintf_body del: Sprintf.simps
        split: sum.split prod.split option.split)

lemma runStreamCommand_silent:
  "stdout_of (fst (runStreamCommand L rest ct command path post)) = []"
  by (simp add: runStreamCommand_def split: sum.split prod.split option.split)

lemma runCommand_get_silent:
  "stdout_of (fst (runCommand L rest ct command path None um v)) = []"
  by (simp add: runCommand_get_events split: sum.split prod.split option.split)

lemma runCommand_post_announced:
  "json_Marshal_post L p = Inr j \<Longrightarrow>
   announced j (fst (runCommand L rest ct command path (Some p) um v))"
  by (simp add: runCommand_post_events split: sum.split option.split)

lemma runCommand_post_unmarshalled:
  "json_Marshal_post L p = Inl e \<Longrightarrow>
   fst (runCommand L rest ct command path (Some p) um v) = []"
  by (simp add: runCommand_post_events split: sum.split option.split)

subsection \<open>Clone\<close>

text \<open>
  C1. On the fake server, \<open>Clone\<close> without force fails on the reply with error \<open>""\<close>
  and result \<open>"ok"\<close>: the result has two bytes, and the check \<open>len(data.Result) > 1\<close>
  turns it into the error "clone backup returned more than one result". With force it
  fails on the reply with error \<open>""\<close> and result \<open>""\<close>: the result is not \<open>"ok"\<close>, and
  the error made from it has the empty message.
\<close>

theorem Clone_fails_on_ok:
  "snd (Clone (fake_lib ok_body (zero_Reply []) \<lparr>Result = ''ok'', Error = [], Version = []\<rparr>)
          conn0 ''backup'' False) =
     Returned (Some (Errorf ''%s %s returned more than one result''
                       [ArgS ''clone'', ArgS ''backup'']))
   \<and> snd (Clone (fake_lib ok_body (zero_Reply []) \<lparr>Result = [], Error = [], Version = []\<rparr>)
          conn0 ''backup'' True) =
     Returned (Some (Errorf [] []))"
  by code_simp

theorem Clone_fails_on_ok_witness:
  "snd (Clone (fake_lib ok_body (zero_Reply []) \<lparr>Result = ''ok'', Error = [], Version = []\<rparr>)
          conn0 ''backup'' False) \<noteq> Returned None"
  using Clone_fails_on_ok by simp

text \<open>
  More generally no call of \<open>Clone\<close> returns a nil error, whatever the libraries and the
  server do: a result of more than one byte is refused by the length check, and a
  shorter one is not \<open>"ok"\<close>.
\<close>

lemma Clone_never_succeeds: "snd (Clone L rest name force) \<noteq> Returned None"
  by (auto simp: Clone_def on_return_def Let_def
        split: sum.splits prod.splits outcome.splits option.splits if_splits)

subsection \<open>The URL of a tree command\<close>

text \<open>
  C2. With the tree selector \<open>"foo"\<close>, the text that \<open>MakeCallUrl\<close> hands to \<open>url.Parse\<close>
  for a tree command is \<open>/tree/foo/\<close>, the escaped command, a slash, the path's URL
  suffix and then \<open>%!s(MISSING)\<close>: the format has five \<open>%s\<close> and the call has four
  operands. The result of \<open>MakeCallUrl\<close> is the error of \<open>url.Parse\<close> on that text or
  the base resolved against what it parses to. That text is never \<open>/tree/foo/\<close>, the
  escaped command and the path's URL suffix.
\<close>

theorem MakeCallUrl_tree_foo:
  "MakeCallUrl L \<lparr>base_uri = b, tree = ''foo'', taskowner = t\<rparr> COMMAND_TREE command path =
     (case url_Parse L (''/tree/foo/'' @ QueryEscape command @ ''/'' @
                          url_String L (path_URL L path) @ ''%!s(MISSING)'') of
        Inl e \<Rightarrow> Inl e
      | Inr suffix \<Rightarrow> Inr (ResolveReference L b suffix))
   \<and> ''/tree/foo/'' @ QueryEscape command @ ''/'' @
         url_String L (path_URL L path) @ ''%!s(MISSING)'' \<noteq>
       ''/tree/foo/'' @ QueryEscape command @ url_String L (path_URL L path)"
proof
  show "MakeCallUrl L \<lparr>base_uri = b, tree = ''foo'', taskowner = t\<rparr> COMMAND_TREE command path =
     (case url_Parse L (''/tree/foo/'' @ QueryEscape command @ ''/'' @
                          url_String L (path_URL L path) @ ''%!s(MISSING)'') of
        Inl e \<Rightarrow> Inl e
      | Inr suffix \<Rightarrow> Inr (ResolveReference L b suffix))"
    by (simp add: MakeCallUrl_def parent_of_def COMMAND_TREE_def COMMAND_PLAIN_def
          QueryEscape_tree QueryEscape_foo Sprintf_tree
          del: Sprintf.simps QueryEscape.simps cong: sum.case_cong)
next
  let ?p = "url_String L (path_URL L path)"
  have "length (''/'' @ ?p @ ''%!s(MISSING)'') \<noteq> length ?p" by simp
  then have "''/'' @ ?p @ ''%!s(MISSING)'' \<noteq> ?p" by metis
  then show "''/tree/foo/'' @ QueryEscape command @ ''/'' @ ?p @ ''%!s(MISSING)'' \<noteq>
       ''/tree/foo/'' @ QueryEscape command @ ?p"
    by simp
qed

subsection \<open>Read and ReadString\<close>

text \<open>
  C6. When the command of a read returns a decoded reply with an empty error: an empty
  result array makes \<open>Read\<close> fail with the error "invalid key", and \<open>ReadString\<close> fail
  with the same error; two or more results make both fail with "returned more than
  one result"; a single result is returned by \<open>Read\<close> as the value, and \<open>ReadString\<close>
  returns that value when it is valid UTF-8 and fails with "does not contain a valid
  utf8 string" when it is not.
\<close>

theorem Read_one_result:
  assumes "runCommand L rest COMMAND_TREE ''read'' path None (json_Unmarshal_strings L)
             (zero_Reply []) = (evs, Returned (None, data))"
    and "Error data = []"
  shows "(Result data = [] \<longrightarrow>
            snd (Read L rest path) =
              Returned ([], Some (Errorf ''invalid key %s'' [ArgS (path_String L path)])) \<and>
            snd (ReadString L rest path) =
              Returned ([], Some (Errorf ''invalid key %s'' [ArgS (path_String L path)])))
       \<and> (2 \<le> length (Result data) \<longrightarrow>
            snd (Read L rest path) =
              Returned ([], Some (Errorf ''read %s returned more than one result''
                                    [ArgS (path_String L path)])) \<and>
            snd (ReadString L rest path) =
              Returned ([], Some (Errorf ''read %s returned more than one result''
                                    [ArgS (path_String L path)])))
       \<and> (\<forall>x. Result data = [x] \<longrightarrow>
            snd (Read L rest path) = Returned (x, None) \<and>
            snd (ReadString L rest path) =
              (if utf8_Valid x then Returned (x, None)
               else Returned ([], Some (Errorf ''path %s does not contain a valid utf8 string''
                                          [ArgS (path_String L path)]))))"
  using assms by (auto simp: Read_def ReadString_def on_return_def)

theorem Read_one_result_witness:
  "snd (Read (fake_lib ok_body \<lparr>Result = [], Error = [], Version = []\<rparr> (zero_Reply []))
          conn0 [''a'', ''b'']) =
     Returned ([], Some (Errorf ''invalid key %s'' [ArgS ''/a/b'']))
   \<and> snd (ReadString (fake_lib ok_body \<lparr>Result = [], Error = [], Version = []\<rparr>
                  (zero_Reply [])) conn0 [''a'', ''b'']) =
     Returned ([], Some (Errorf ''invalid key %s'' [ArgS ''/a/b'']))
   \<and> snd (Read (fake_lib ok_body \<lparr>Result = [''x'', ''y''], Error = [], Version = []\<rparr>
                  (zero_Reply [])) conn0 [''a'', ''b'']) =
     Returned ([], Some (Errorf ''read %s returned more than one result'' [ArgS ''/a/b'']))
   \<and> snd (ReadString (fake_lib ok_body \<lparr>Result = [''x'', ''y''], Error = [], Version = []\<rparr>
                  (zero_Reply [])) conn0 [''a'', ''b'']) =
     Returned ([], Some (Errorf ''read %s returned more than one result'' [ArgS ''/a/b'']))
   \<and> snd (Read (fake_lib ok_body \<lparr>Result = [''AB''], Error = [], Version = []\<rparr>
                  (zero_Reply [])) conn0 [''a'', ''b'']) =
     Returned (''AB'', None)
   \<and> snd (ReadString (fake_lib ok_body \<lparr>Result = [''AB''], Error = [], Version = []\<rparr>
                  (zero_Reply [])) conn0 [''a'', ''b'']) =
     Returned (''AB'', None)
   \<and> snd (ReadString (fake_lib ok_body
                  \<lparr>Result = [[CHR 0xC3, CHR 0x28]], Error = [], Version = []\<rparr>
                  (zero_Reply [])) conn0 [''a'', ''b'']) =
     Returned ([], Some (Errorf ''path %s does not contain a valid utf8 string''
                           [ArgS ''/a/b'']))"
proof -
  let ?L = "\<lambda>r. fake_lib ok_body \<lparr>Result = r, Error = [], Version = []\<rparr> (zero_Reply [])"
  have run: "\<And>r. runCommand (?L r) conn0 COMMAND_TREE ''read'' [''a'', ''b''] None
               (json_Unmarshal_strings (?L r)) (zero_Reply []) =
             ([Get ''http://127.0.0.1:8080/read/a/b'', BodyClose],
              Returned (None, \<lparr>Result = r, Error = [], Version = []\<rparr>))"
    by (simp add: runCommand_fake slashes_def QueryEscape_read del: QueryEscape.simps)
       (simp add: fake_lib_def)
  have ps: "\<And>r. path_String (?L r) [''a'', ''b''] = ''/a/b''"
    by (simp add: fake_lib_def slashes_def)
  have v1: "utf8_Valid ''AB''" by (simp add: utf8_Valid_def)
  have v2: "\<not> utf8_Valid [CHR 0xC3, CHR 0x28]" by (simp add: utf8_Valid_def)
  show ?thesis
    using Read_one_result [OF run [of "[]"]] Read_one_result [OF run [of "[''x'', ''y'']"]]
      Read_one_result [OF run [of "[''AB'']"]]
      Read_one_result [OF run [of "[[CHR 0xC3, CHR 0x28]]"]] v1 v2
    by (simp add: ps)
qed

subsection \<open>Update and CompareAndSet\<close>

text \<open>
  C7. When the value is serialised and the command of an update returns a decoded
  reply with an empty error, \<open>Update\<close> fails with the error "update seemed to succeed,
  but didn't return a hash" if the result is empty, and returns the result, which is
  then not empty, with no error otherwise. The same holds for \<open>CompareAndSet\<close> and its
  own command and message.
\<close>

theorem Update_needs_hash:
  "(IrminString_MarshalJSON L contents = Inr d \<and>
    runCommand L rest COMMAND_TREE ''update'' path (Some \<lparr>Task = t, Data = d\<rparr>)
      (json_Unmarshal_string L) (zero_Reply []) = (evs, Returned (None, data)) \<and>
    Error data = []
    \<longrightarrow> snd (Update L rest t path contents) =
          (if Result data = []
           then Returned ([], Some (Errorf ''update seemed to succeed, but didn't return a hash''
                                      [ArgS (path_String L path), ArgS []]))
           else Returned (Result data, None)))
   \<and> (json_Marshal_pair L oldcontents contents = Inr d' \<and>
    runCommand L rest COMMAND_TREE ''compare-and-set'' path (Some \<lparr>Task = t, Data = d'\<rparr>)
      (json_Unmarshal_string L) (zero_Reply []) = (evs', Returned (None, data')) \<and>
    Error data' = []
    \<longrightarrow> snd (CompareAndSet L rest t path oldcontents contents) =
          (if Result data' = []
           then Returned ([], Some (Errorf
                  ''compare-and-set seemed to succeed, but didn't return a hash''
                  [ArgS (path_String L path), ArgS []]))
           else Returned (Result data', None)))"
  by (auto simp: Update_def CompareAndSet_def on_return_def)

theorem Update_needs_hash_witness:
  "snd (Update (fake_lib ok_body (zero_Reply []) \<lparr>Result = [], Error = [], Version = []\<rparr>)
          conn0 task0 [''a'', ''b''] ''hello'') =
     Returned ([], Some (Errorf ''update seemed to succeed, but didn't return a hash''
                           [ArgS ''/a/b'', ArgS []]))
   \<and> snd (Update (fake_lib ok_body (zero_Reply [])
                    \<lparr>Result = ''3f2a'', Error = [], Version = []\<rparr>)
          conn0 task0 [''a'', ''b''] ''hello'') =
     Returned (''3f2a'', None)
   \<and> snd (CompareAndSet (fake_lib ok_body (zero_Reply [])
                    \<lparr>Result = [], Error = [], Version = []\<rparr>)
          conn0 task0 [''a'', ''b''] ''old'' ''new'') =
     Returned ([], Some (Errorf ''compare-and-set seemed to succeed, but didn't return a hash''
                           [ArgS ''/a/b'', ArgS []]))
   \<and> snd (CompareAndSet (fake_lib ok_body (zero_Reply [])
                    \<lparr>Result = ''3f2a'', Error = [], Version = []\<rparr>)
          conn0 task0 [''a'', ''b''] ''old'' ''new'') =
     Returned (''3f2a'', None)"
proof -
  let ?L = "\<lambda>r. fake_lib ok_body (zero_Reply []) \<lparr>Result = r, Error = [], Version = []\<rparr>"
  have m1: "\<And>r. IrminString_MarshalJSON (?L r) ''hello'' = Inr ''hello''"
    by (simp add: fake_lib_def)
  have m2: "\<And>r. json_Marshal_pair (?L r) ''old'' ''new'' = Inr ''old,new''"
    by (simp add: fake_lib_def)
  have run: "\<And>r c d. \<exists>evs. runCommand (?L r) conn0 COMMAND_TREE c [''a'', ''b'']
               (Some \<lparr>Task = task0, Data = d\<rparr>)
               (json_Unmarshal_string (?L r)) (zero_Reply []) =
             (evs, Returned (None, \<lparr>Result = r, Error = [], Version = []\<rparr>))"
    by (simp add: runCommand_fake_post del: QueryEscape.simps) (simp add: fake_lib_def)
  have ps: "\<And>r. path_String (?L r) [''a'', ''b''] = ''/a/b''"
    by (simp add: fake_lib_def slashes_def)
  obtain e1 where r1: "runCommand (?L []) conn0 COMMAND_TREE ''update'' [''a'', ''b'']
               (Some \<lparr>Task = task0, Data = ''hello''\<rparr>)
               (json_Unmarshal_string (?L [])) (zero_Reply []) =
             (e1, Returned (None, \<lparr>Result = [], Error = [], Version = []\<rparr>))"
    using run by blast
  obtain e2 where r2: "runCommand (?L ''3f2a'') conn0 COMMAND_TREE ''update'' [''a'', ''b'']
               (Some \<lparr>Task = task0, Data = ''hello''\<rparr>)
               (json_Unmarshal_string (?L ''3f2a'')) (zero_Reply []) =
             (e2, Returned (None, \<lparr>Result = ''3f2a'', Error = [], Version = []\<rparr>))"
    using run by blast
  obtain e3 where r3: "runCommand (?L []) conn0 COMMAND_TREE ''compare-and-set'' [''a'', ''b'']
               (Some \<lparr>Task = task0, Data = ''old,new''\<rparr>)
               (json_Unmarshal_string (?L [])) (zero_Reply []) =
             (e3, Returned (None, \<lparr>Result = [], Error = [], Version = []\<rparr>))"
    using run by blast
  obtain e4 where r4: "runCommand (?L ''3f2a'') conn0 COMMAND_TREE ''compare-and-set''
               [''a'', ''b''] (Some \<lparr>Task = task0, Data = ''old,new''\<rparr>)
               (json_Unmarshal_string (?L ''3f2a'')) (zero_Reply []) =
             (e4, Returned (None, \<lparr>Result = ''3f2a'', Error = [], Version = []\<rparr>))"
    using run by blast
  have a: "snd (Update (?L []) conn0 task0 [''a'', ''b''] ''hello'') =
     Returned ([], Some (Errorf ''update seemed to succeed, but didn't return a hash''
                           [ArgS ''/a/b'', ArgS []]))"
    using Update_needs_hash [where L = "?L []" and contents = "''hello''" and d = "''hello''"
        and rest = conn0 and path = "[''a'', ''b'']" and t = task0 and evs = e1
        and data = "\<lparr>Result = [], Error = [], Version = []\<rparr>"] m1 r1 ps
    by simp
  have b: "snd (Update (?L ''3f2a'') conn0 task0 [''a'', ''b''] ''hello'') =
     Returned (''3f2a'', None)"
    using Update_needs_hash [where L = "?L ''3f2a''" and contents = "''hello''"
        and d = "''hello''" and rest = conn0 and path = "[''a'', ''b'']" and t = task0
        and evs = e2 and data = "\<lparr>Result = ''3f2a'', Error = [], Version = []\<rparr>"] m1 r2 ps
    by simp
  have c: "snd (CompareAndSet (?L []) conn0 task0 [''a'', ''b''] ''old'' ''new'') =
     Returned ([], Some (Errorf ''compare-and-set seemed to succeed, but didn't return a hash''
                           [ArgS ''/a/b'', ArgS []]))"
    using Update_needs_hash [where L = "?L []" and contents = "''new''"
        and oldcontents = "''old''" and d' = "''old,new''"
        and rest = conn0 and path = "[''a'', ''b'']" and t = task0 and evs' = e3
        and data' = "\<lparr>Result = [], Error = [], Version = []\<rparr>"] m2 r3 ps
    by simp
  have d: "snd (CompareAndSet (?L ''3f2a'') conn0 task0 [''a'', ''b''] ''old'' ''new'') =
     Returned (''3f2a'', None)"
    using Update_needs_hash [where L = "?L ''3f2a''" and contents = "''new''"
        and oldcontents = "''old''" and d' = "''old,new''"
        and rest = conn0 and path = "[''a'', ''b'']" and t = task0 and evs' = e4
        and data' = "\<lparr>Result = ''3f2a'', Error = [], Version = []\<rparr>"] m2 r4 ps
    by simp
  from a b c d show ?thesis by simp
qed

subsection \<open>Changing a connection\<close>

text \<open>
  C8, as stated, fails: \<open>SetTaskOwner\<close> writes the new owner into the connection it is
  called on. In a store that holds one connection, owned by alice, the call leaves one
  connection, at the same address, owned by bob.
\<close>

theorem SetTaskOwner_in_place:
  "SetTaskOwner [\<lparr>base_uri = ''http://127.0.0.1:8080'', tree = [], taskowner = ''alice''\<rparr>]
     0 ''bob'' =
   Some [\<lparr>base_uri = ''http://127.0.0.1:8080'', tree = [], taskowner = ''bob''\<rparr>]"
  by (simp add: SetTaskOwner_def)

text \<open>
  C8, amended. On a connection that exists, \<open>FromTree\<close> returns a new address, whose
  connection is the original with the tree replaced, and leaves every connection of
  the store as it was; \<open>SetTaskOwner\<close> allocates nothing, replaces the task owner of
  the connection it is called on, keeps its base endpoint and its tree, and leaves
  every other connection as it was.
\<close>

theorem FromTree_copies:
  "rest < length h \<longrightarrow>
     (\<exists>h' r. FromTree h rest t = Some (h', r) \<and> r = length h \<and> length h' = Suc (length h)
        \<and> (\<forall>a < length h. h' ! a = h ! a)
        \<and> h' ! r = \<lparr>base_uri = base_uri (h ! rest), tree = t,
                     taskowner = taskowner (h ! rest)\<rparr>)
   \<and> (\<exists>h'. SetTaskOwner h rest owner = Some h' \<and> length h' = length h
        \<and> (\<forall>a < length h. a \<noteq> rest \<longrightarrow> h' ! a = h ! a)
        \<and> h' ! rest = \<lparr>base_uri = base_uri (h ! rest), tree = tree (h ! rest),
                        taskowner = owner\<rparr>)"
  by (auto simp: FromTree_def SetTaskOwner_def nth_append)

theorem FromTree_copies_witness:
  "FromTree [\<lparr>base_uri = ''http://127.0.0.1:8080'', tree = [], taskowner = ''alice''\<rparr>]
     0 ''dev'' =
   Some ([\<lparr>base_uri = ''http://127.0.0.1:8080'', tree = [], taskowner = ''alice''\<rparr>,
          \<lparr>base_uri = ''http://127.0.0.1:8080'', tree = ''dev'', taskowner = ''alice''\<rparr>], 1)"
  using FromTree_copies
    [of 0 "[\<lparr>base_uri = ''http://127.0.0.1:8080'', tree = [], taskowner = ''alice''\<rparr>]"
      "''dev''" "''bob''"]
  by (simp add: FromTree_def)

subsection \<open>The start of a stream\<close>

text \<open>
  C3. A streamed response whose first element is a well-formed token with the value
  \<open>"begin"\<close>, or a data frame with no token at all, makes \<open>runStreamCommand\<close> return a
  nil channel and a nil error, and so does \<open>Iter\<close>: the test of the start token returns
  without setting the error.
\<close>

theorem wrong_start_no_error:
  "snd (runStreamCommand
          (fake_stream [Object (Present ''begin'') Absent Absent Absent, version_token,
                        frame ''a'', end_token] True)
          conn0 COMMAND_TREE ''iter'' [] None) = Returned (None, None)
   \<and> snd (Iter (fake_stream [Object (Present ''begin'') Absent Absent Absent, version_token,
                             frame ''a'', end_token] True) conn0) = Returned (None, None)
   \<and> snd (Iter (fake_stream [frame ''a'', end_token] True) conn0) = Returned (None, None)"
  by code_simp

theorem wrong_start_no_error_witness:
  "snd (Iter (fake_stream [frame ''a'', end_token] True) conn0) \<noteq>
     Returned (None, Some json_error)"
  using wrong_start_no_error by simp

text \<open>
  The same holds for every response whose first element decodes into a token other
  than \<open>"start"\<close>.
\<close>

lemma header_wrong_token:
  "token_err body = None \<Longrightarrow> elements body = e # es \<Longrightarrow>
   Decode_stream_token [] e = Inr tok \<Longrightarrow> tok \<noteq> ''start'' \<Longrightarrow>
   decode_header body = (None, None)"
  by (simp add: decode_header_def)

subsection \<open>Elements with an empty result\<close>




subsection \<open>Streams that end early\<close>

text \<open>
  C5. A response that stops after the frame of \<open>a\<close>, with neither the end token nor
  the closing bracket, gives the consumer of \<open>Iter\<close> the path \<open>a\<close> and then a closed
  channel with a nil error: exactly what the complete response gives. A response with
  an element that does not decode after the frame of \<open>a\<close> gives the same, and the
  frame of \<open>b\<close> behind it is lost.
\<close>

theorem truncated_stream_closes_normally:
  "snd (Iter (fake_stream [start_token, version_token, frame ''a''] False) conn0) =
     Returned (Some ([[''a'']], Closed), None)
   \<and> snd (Iter (fake_stream [start_token, version_token, frame ''a'', end_token] True) conn0) =
     Returned (Some ([[''a'']], Closed), None)
   \<and> snd (Iter (fake_stream [start_token, version_token, frame ''a'', Undecodable, frame ''b'',
                             end_token] True) conn0) =
     Returned (Some ([[''a'']], Closed), None)"
  by code_simp

theorem truncated_stream_closes_normally_witness:
  "snd (Iter (fake_stream [start_token, version_token, frame ''a''] False) conn0) =
   snd (Iter (fake_stream [start_token, version_token, frame ''a'', end_token] True) conn0)"
  using truncated_stream_closes_normally by simp

text \<open>
  Whether the closing bracket arrives never changes what the caller and the consumer
  get.
\<close>

lemma closing_not_observed: "decode_header (body\<lparr>closing := c\<rparr>) = decode_header body"
  by (simp add: decode_header_def cong: option.case_cong)

subsection \<open>What is written to the standard output\<close>

text \<open>
  C10. When the value is serialised, the URL builds and the request is serialised,
  the first two things that \<open>Update\<close>, \<open>CompareAndSet\<close>, \<open>Remove\<close> and \<open>RemoveRec\<close> do
  are to write the line \<open>body\<close>, a space, the serialised request (the task and the
  value) and a newline to the standard output, and to send the POST with that
  request; that line is all they write. They send no POST that does not carry the
  serialised request and that does not come right after that line; when a
  serialisation fails they do nothing. The same holds for \<open>runCommand\<close> with any
  request body. \<open>runCommand\<close> without a body, \<open>Read\<close>, \<open>ReadString\<close>, \<open>Clone\<close>,
  \<open>runStreamCommand\<close> with or without a body and \<open>Iter\<close> write nothing to the
  standard output.
\<close>

theorem request_body_on_stdout:
  "(\<forall>d uri j. IrminString_MarshalJSON L contents = Inr d \<and>
       MakeCallUrl L rest COMMAND_TREE ''update'' path = Inr uri \<and>
       json_Marshal_post L \<lparr>Task = t, Data = d\<rparr> = Inr j \<longrightarrow>
       take 2 (fst (Update L rest t path contents)) =
         [Stdout (''body '' @ j @ ''\<newline>''), Post (url_String L uri) ''application/json'' j] \<and>
       stdout_of (fst (Update L rest t path contents)) = [''body '' @ j @ ''\<newline>''])
   \<and> (\<forall>d uri j. json_Marshal_pair L oldcontents contents = Inr d \<and>
       MakeCallUrl L rest COMMAND_TREE ''compare-and-set'' path = Inr uri \<and>
       json_Marshal_post L \<lparr>Task = t, Data = d\<rparr> = Inr j \<longrightarrow>
       take 2 (fst (CompareAndSet L rest t path oldcontents contents)) =
         [Stdout (''body '' @ j @ ''\<newline>''), Post (url_String L uri) ''application/json'' j] \<and>
       stdout_of (fst (CompareAndSet L rest t path oldcontents contents)) =
         [''body '' @ j @ ''\<newline>''])
   \<and> (\<forall>uri j. MakeCallUrl L rest COMMAND_TREE ''remove'' path = Inr uri \<and>
       json_Marshal_post L \<lparr>Task = t, Data = []\<rparr> = Inr j \<longrightarrow>
       take 2 (fst (Remove L rest t path)) =
         [Stdout (''body '' @ j @ ''\<newline>''), Post (url_String L uri) ''application/json'' j] \<and>
       stdout_of (fst (Remove L rest t path)) = [''body '' @ j @ ''\<newline>''])
   \<and> (\<forall>uri j. MakeCallUrl L rest COMMAND_TREE ''remove-rec'' path = Inr uri \<and>
       json_Marshal_post L \<lparr>Task = t, Data = []\<rparr> = Inr j \<longrightarrow>
       take 2 (fst (RemoveRec L rest t path)) =
         [Stdout (''body '' @ j @ ''\<newline>''), Post (url_String L uri) ''application/json'' j] \<and>
       stdout_of (fst (RemoveRec L rest t path)) = [''body '' @ j @ ''\<newline>''])
   \<and> (case IrminString_MarshalJSON L contents of
      Inl e \<Rightarrow> fst (Update L rest t path contents) = []
    | Inr d \<Rightarrow>
        (case json_Marshal_post L \<lparr>Task = t, Data = d\<rparr> of
           Inl e \<Rightarrow> fst (Update L rest t path contents) = []
         | Inr j \<Rightarrow> announced j (fst (Update L rest t path contents))))
   \<and> (case json_Marshal_pair L oldcontents contents of
      Inl e \<Rightarrow> fst (CompareAndSet L rest t path oldcontents contents) = []
    | Inr d \<Rightarrow>
        (case json_Marshal_post L \<lparr>Task = t, Data = d\<rparr> of
           Inl e \<Rightarrow> fst (CompareAndSet L rest t path oldcontents contents) = []
         | Inr j \<Rightarrow> announced j (fst (CompareAndSet L rest t path oldcontents contents))))
   \<and> (case json_Marshal_post L \<lparr>Task = t, Data = []\<rparr> of
      Inl e \<Rightarrow> fst (Remove L rest t path) = [] \<and> fst (RemoveRec L rest t path) = []
    | Inr j \<Rightarrow>
        announced j (fst (Remove L rest t path)) \<and>
        announced j (fst (RemoveRec L rest t path)))
   \<and> (MakeCallUrl L rest ct command path = Inr uri \<and> json_Marshal_post L p = Inr j
      \<longrightarrow> take 2 (fst (runCommand L rest ct command path (Some p) um v)) =
            [Stdout (''body '' @ j @ ''\<newline>''),
             Post (url_String L uri) ''application/json'' j])
   \<and> stdout_of (fst (runCommand L rest ct command path None um v)) = []
   \<and> stdout_of (fst (Read L rest path)) = []
   \<and> stdout_of (fst (ReadString L rest path)) = []
   \<and> stdout_of (fst (Clone L rest name force)) = []
   \<and> stdout_of (fst (runStreamCommand L' rest' ct command path post)) = []
   \<and> stdout_of (fst (Iter L' rest')) = []"
proof -
  have post: "\<And>c q uri j um v. MakeCallUrl L rest COMMAND_TREE c path = Inr uri \<Longrightarrow>
      json_Marshal_post L q = Inr j \<Longrightarrow>
      take 2 (fst (runCommand L rest COMMAND_TREE c path (Some q) um v)) =
        [Stdout (''body '' @ j @ ''\<newline>''), Post (url_String L uri) ''application/json'' j] \<and>
      stdout_of (fst (runCommand L rest COMMAND_TREE c path (Some q) um v)) =
        [''body '' @ j @ ''\<newline>'']"
    by (simp add: runCommand_post_events split: option.split)
  have upd1: "\<forall>d uri j. IrminString_MarshalJSON L contents = Inr d \<and>
       MakeCallUrl L rest COMMAND_TREE ''update'' path = Inr uri \<and>
       json_Marshal_post L \<lparr>Task = t, Data = d\<rparr> = Inr j \<longrightarrow>
       take 2 (fst (Update L rest t path contents)) =
         [Stdout (''body '' @ j @ ''\<newline>''), Post (url_String L uri) ''application/json'' j] \<and>
       stdout_of (fst (Update L rest t path contents)) = [''body '' @ j @ ''\<newline>'']"
    by (intro allI impI, elim conjE) (simp add: Update_def fst_on_return post)
  have cas1: "\<forall>d uri j. json_Marshal_pair L oldcontents contents = Inr d \<and>
       MakeCallUrl L rest COMMAND_TREE ''compare-and-set'' path = Inr uri \<and>
       json_Marshal_post L \<lparr>Task = t, Data = d\<rparr> = Inr j \<longrightarrow>
       take 2 (fst (CompareAndSet L rest t path oldcontents contents)) =
         [Stdout (''body '' @ j @ ''\<newline>''), Post (url_String L uri) ''application/json'' j] \<and>
       stdout_of (fst (CompareAndSet L rest t path oldcontents contents)) =
         [''body '' @ j @ ''\<newline>'']"
    by (intro allI impI, elim conjE) (simp add: CompareAndSet_def fst_on_return post)
  have rem1: "\<forall>uri j. MakeCallUrl L rest COMMAND_TREE ''remove'' path = Inr uri \<and>
       json_Marshal_post L \<lparr>Task = t, Data = []\<rparr> = Inr j \<longrightarrow>
       take 2 (fst (Remove L rest t path)) =
         [Stdout (''body '' @ j @ ''\<newline>''), Post (url_String L uri) ''application/json'' j] \<and>
       stdout_of (fst (Remove L rest t path)) = [''body '' @ j @ ''\<newline>'']"
    by (intro allI impI, elim conjE) (simp add: Remove_def fst_on_return post)
  have rec1: "\<forall>uri j. MakeCallUrl L rest COMMAND_TREE ''remove-rec'' path = Inr uri \<and>
       json_Marshal_post L \<lparr>Task = t, Data = []\<rparr> = Inr j \<longrightarrow>
       take 2 (fst (RemoveRec L rest t path)) =
         [Stdout (''body '' @ j @ ''\<newline>''), Post (url_String L uri) ''application/json'' j] \<and>
       stdout_of (fst (RemoveRec L rest t path)) = [''body '' @ j @ ''\<newline>'']"
    by (intro allI impI, elim conjE) (simp add: RemoveRec_def fst_on_return post)
  have upd: "case IrminString_MarshalJSON L contents of
      Inl e \<Rightarrow> fst (Update L rest t path contents) = []
    | Inr d \<Rightarrow>
        (case json_Marshal_post L \<lparr>Task = t, Data = d\<rparr> of
           Inl e \<Rightarrow> fst (Update L rest t path contents) = []
         | Inr j \<Rightarrow> announced j (fst (Update L rest t path contents)))"
    by (simp add: Update_def fst_on_return runCommand_post_announced
          runCommand_post_unmarshalled split: sum.split)
  have cas: "case json_Marshal_pair L oldcontents contents of
      Inl e \<Rightarrow> fst (CompareAndSet L rest t path oldcontents contents) = []
    | Inr d \<Rightarrow>
        (case json_Marshal_post L \<lparr>Task = t, Data = d\<rparr> of
           Inl e \<Rightarrow> fst (CompareAndSet L rest t path oldcontents contents) = []
         | Inr j \<Rightarrow> announced j (fst (CompareAndSet L rest t path oldcontents contents)))"
    by (simp add: CompareAndSet_def fst_on_return runCommand_post_announced
          runCommand_post_unmarshalled split: sum.split)
  have rem: "case json_Marshal_post L \<lparr>Task = t, Data = []\<rparr> of
      Inl e \<Rightarrow> fst (Remove L rest t path) = [] \<and> fst (RemoveRec L rest t path) = []
    | Inr j \<Rightarrow>
        announced j (fst (Remove L rest t path)) \<and>
        announced j (fst (RemoveRec L rest t path))"
    by (simp add: Remove_def RemoveRec_def fst_on_return runCommand_post_announced
          runCommand_post_unmarshalled split: sum.split)
  have sent: "MakeCallUrl L rest ct command path = Inr uri \<and> json_Marshal_post L p = Inr j
      \<longrightarrow> take 2 (fst (runCommand L rest ct command path (Some p) um v)) =
            [Stdout (''body '' @ j @ ''\<newline>''),
             Post (url_String L uri) ''application/json'' j]"
    by (simp add: runCommand_post_events split: option.split)
  have rd: "stdout_of (fst (Read L rest path)) = []"
    by (simp add: Read_def fst_on_return runCommand_get_silent)
  have rds: "stdout_of (fst (ReadString L rest path)) = []"
    by (simp add: ReadString_def fst_on_return rd)
  have cl: "stdout_of (fst (Clone L rest name force)) = []"
    by (simp add: Clone_def Let_def fst_on_return runCommand_get_silent split: sum.split)
  have it: "stdout_of (fst (Iter L' rest')) = []"
    by (simp add: Iter_def fst_on_return runStreamCommand_silent)
  from upd1 cas1 rem1 rec1 upd cas rem sent rd rds cl it show ?thesis
    by (simp only: runCommand_get_silent runStreamCommand_silent simp_thms)
qed

theorem request_body_on_stdout_witness:
  "fst (Update (fake_lib ok_body (zero_Reply []) (zero_Reply [])) conn0 task0 [''a'', ''b'']
          ''hello'') =
     [Stdout ''body task by tree params hello\<newline>'',
      Post ''http://127.0.0.1:8080/update/a/b'' ''application/json''
        ''task by tree params hello'', BodyClose]
   \<and> take 2 (fst (Update (fake_lib ok_body (zero_Reply []) (zero_Reply [])) conn0 task0
                    [''a'', ''b''] ''hello'')) =
     [Stdout ''body task by tree params hello\<newline>'',
      Post ''http://127.0.0.1:8080/update/a/b'' ''application/json''
        ''task by tree params hello'']
   \<and> take 2 (fst (CompareAndSet (fake_lib ok_body (zero_Reply []) (zero_Reply [])) conn0 task0
                    [''a'', ''b''] ''old'' ''new'')) =
     [Stdout ''body task by tree params old,new\<newline>'',
      Post ''http://127.0.0.1:8080/compare-and-set/a/b'' ''application/json''
        ''task by tree params old,new'']
   \<and> take 2 (fst (Remove (fake_lib ok_body (zero_Reply []) (zero_Reply [])) conn0 task0
                    [''a'', ''b''])) =
     [Stdout ''body task by tree params \<newline>'',
      Post ''http://127.0.0.1:8080/remove/a/b'' ''application/json'' ''task by tree params '']
   \<and> take 2 (fst (RemoveRec (fake_lib ok_body (zero_Reply []) (zero_Reply [])) conn0 task0
                    [''a'', ''b''])) =
     [Stdout ''body task by tree params \<newline>'',
      Post ''http://127.0.0.1:8080/remove-rec/a/b'' ''application/json''
        ''task by tree params '']"
proof -
  let ?L = "fake_lib ok_body (zero_Reply []) (zero_Reply [])
              :: (string, error + string) lib"
  note T = request_body_on_stdout [where L = ?L and rest = conn0 and t = task0
      and path = "[''a'', ''b'']" and contents = "''hello''"]
  note T' = request_body_on_stdout [where L = ?L and rest = conn0 and t = task0
      and path = "[''a'', ''b'']" and contents = "''new''" and oldcontents = "''old''"]
  have url: "\<And>c. MakeCallUrl ?L conn0 COMMAND_TREE c [''a'', ''b''] =
      Inr (''http://127.0.0.1:8080/'' @ QueryEscape c @ ''/a/b'')"
    by (simp add: MakeCallUrl_fake slashes_def del: QueryEscape.simps)
  have q: "QueryEscape ''update'' = ''update''" "QueryEscape ''compare-and-set'' = ''compare-and-set''"
    "QueryEscape ''remove'' = ''remove''" "QueryEscape ''remove-rec'' = ''remove-rec''"
    by code_simp+
  have m: "IrminString_MarshalJSON ?L ''hello'' = Inr ''hello''"
    "json_Marshal_pair ?L ''old'' ''new'' = Inr ''old,new''"
    "\<And>d. json_Marshal_post ?L \<lparr>Task = task0, Data = d\<rparr> = Inr (''task by tree params '' @ d)"
    "\<And>u. url_String ?L u = u"
    by (simp_all add: fake_lib_def task0_def)
  have full: "fst (Update ?L conn0 task0 [''a'', ''b''] ''hello'') =
     [Stdout ''body task by tree params hello\<newline>'',
      Post ''http://127.0.0.1:8080/update/a/b'' ''application/json''
        ''task by tree params hello'', BodyClose]"
    by code_simp
  have a: "take 2 (fst (Update ?L conn0 task0 [''a'', ''b''] ''hello'')) =
     [Stdout ''body task by tree params hello\<newline>'',
      Post ''http://127.0.0.1:8080/update/a/b'' ''application/json''
        ''task by tree params hello'']"
    using T [THEN conjunct1, rule_format, of "''hello''"
        "''http://127.0.0.1:8080/update/a/b''" "''task by tree params hello''"]
      m url [of "''update''"] q
    by simp
  have b: "take 2 (fst (CompareAndSet ?L conn0 task0 [''a'', ''b''] ''old'' ''new'')) =
     [Stdout ''body task by tree params old,new\<newline>'',
      Post ''http://127.0.0.1:8080/compare-and-set/a/b'' ''application/json''
        ''task by tree params old,new'']"
    using T' [THEN conjunct2, THEN conjunct1, rule_format, of "''old,new''"
        "''http://127.0.0.1:8080/compare-and-set/a/b''" "''task by tree params old,new''"]
      m url [of "''compare-and-set''"] q
    by simp
  have c: "take 2 (fst (Remove ?L conn0 task0 [''a'', ''b''])) =
     [Stdout ''body task by tree params \<newline>'',
      Post ''http://127.0.0.1:8080/remove/a/b'' ''application/json'' ''task by tree params '']"
    using T [THEN conjunct2, THEN conjunct2, THEN conjunct1, rule_format,
        of "''http://127.0.0.1:8080/remove/a/b''" "''task by tree params ''"]
      m url [of "''remove''"] q
    by simp
  have d: "take 2 (fst (RemoveRec ?L conn0 task0 [''a'', ''b''])) =
     [Stdout ''body task by tree params \<newline>'',
      Post ''http://127.0.0.1:8080/remove-rec/a/b'' ''application/json''
        ''task by tree params '']"
    using T [THEN conjunct2, THEN conjunct2, THEN conjunct2, THEN conjunct1, rule_format,
        of "''http://127.0.0.1:8080/remove-rec/a/b''" "''task by tree params ''"]
      m url [of "''remove-rec''"] q
    by simp
  from full a b c d show ?thesis by (simp only: simp_thms)
qed

subsection \<open>Closing the body\<close>

lemmas inv_defs = wg_inv_def expected_wg_def decoder_running_def not_spawned_def

lemma wg_inv_init: "wg_inv (init_sys body)"
  by (simp add: inv_defs init_sys_def)

lemma wg_inv_Closer: "wg_inv s \<Longrightarrow> step_Closer s = Some s' \<Longrightarrow> wg_inv s'"
  by (cases "closer s") (auto simp: inv_defs step_Closer_def split: if_splits)

lemma wg_inv_Receiver: "wg_inv s \<Longrightarrow> step_Receiver s = Some s' \<Longrightarrow> wg_inv s'"
  by (auto simp: wg_inv_def step_Receiver_def split: list.splits if_splits)

lemma wg_inv_Abandon: "wg_inv s \<Longrightarrow> step_Abandon s = Some s' \<Longrightarrow> wg_inv s'"
  by (auto simp: wg_inv_def step_Abandon_def split: if_splits)

lemma wg_inv_Server: "wg_inv s \<Longrightarrow> step_Server s = Some s' \<Longrightarrow> wg_inv s'"
  by (auto simp: wg_inv_def step_Server_def split: list.splits if_splits)


lemma Decoder_shape:
  assumes "step_Decoder cap s = Some s'"
  shows "caller s' = caller s \<and> closer s' = closer s \<and> closes s' = closes s
         \<and> ((decoder s = D_finish \<and> decoder s' = D_done \<and> wg s' = wg s - 1)
            \<or> (decoder_running (decoder s) \<and> decoder_running (decoder s') \<and> wg s' = wg s))"
  using assms
  by (cases "decoder s")
     (auto simp: step_Decoder_def decoder_running_def split: list.splits if_splits sum.splits)

lemma wg_inv_Decoder:
  assumes "wg_inv s" "step_Decoder cap s = Some s'"
  shows "wg_inv s'"
  using assms(1) Decoder_shape [OF assms(2)]
  by (auto simp: inv_defs split: if_splits)

lemma Caller_shape:
  assumes "step_Caller body s = Some s'"
  shows "closer s' = closer s \<and> closes s' = closes s \<and> chan s' = chan s
         \<and> active s' = active s
         \<and> ((caller s = C_add \<and> caller s' = C_go \<and> wg s' = wg s + 1 \<and> decoder s' = decoder s)
            \<or> (caller s = C_go \<and> caller s' = C_return \<and> wg s' = wg s \<and> decoder s' = D_more)
            \<or> (caller s = C_return \<and> caller s' = C_done \<and> wg s' = wg s - 1
                \<and> decoder s' = decoder s)
            \<or> ((caller s = C_token \<or> caller s = C_start \<or> caller s = C_version)
                \<and> (caller s' = C_start \<or> caller s' = C_version \<or> caller s' = C_add
                    \<or> caller s' = C_return)
                \<and> wg s' = wg s \<and> decoder s' = decoder s))"
  using assms
  by (cases "caller s")
     (auto simp: step_Caller_def split: list.splits if_splits sum.splits option.splits)


lemma wg_inv_Caller:
  assumes "wg_inv s" "step_Caller body s = Some s'"
  shows "wg_inv s'"
  using assms(1) Caller_shape [OF assms(2)]
  by (auto simp: inv_defs split: if_splits)


lemma wg_inv_step:
  assumes "wg_inv s" "step cap body t s = Some s'"
  shows "wg_inv s'"
proof (cases t)
  case Caller
  with assms(2) have "step_Caller body s = Some s'" by simp
  with assms(1) show ?thesis by (rule wg_inv_Caller)
next
  case Closer
  with assms(2) have "step_Closer s = Some s'" by simp
  with assms(1) show ?thesis by (rule wg_inv_Closer)
next
  case Decoder
  with assms(2) have "step_Decoder cap s = Some s'" by simp
  with assms(1) show ?thesis by (rule wg_inv_Decoder)
next
  case Receiver
  with assms(2) have "step_Receiver s = Some s'" by simp
  with assms(1) show ?thesis by (rule wg_inv_Receiver)
next
  case Abandon
  with assms(2) have "step_Abandon s = Some s'" by simp
  with assms(1) show ?thesis by (rule wg_inv_Abandon)
next
  case Server
  with assms(2) have "step_Server s = Some s'" by simp
  with assms(1) show ?thesis by (rule wg_inv_Server)
qed

lemma reachable_wg_inv: "reachable cap body s \<Longrightarrow> wg_inv s"
  by (induction rule: reachable.induct) (auto intro: wg_inv_init wg_inv_step)


lemma run_reachable:
  "reachable cap body s \<Longrightarrow> run cap body ts s = Some s' \<Longrightarrow> reachable cap body s'"
  by (induction ts arbitrary: s) (auto split: option.splits intro: reachable.after)


lemma closes_le_1: "wg_inv s \<Longrightarrow> closes s \<le> 1"
  by (cases "closer s") (simp_all add: wg_inv_def)


lemma closed_after_all:
  "wg_inv s \<Longrightarrow> closes s = 1 \<Longrightarrow>
     caller s = C_done \<and> (decoder s = D_none \<or> decoder s = D_done) \<and> wg s = 0"
  by (cases "closer s") (auto simp: inv_defs split: if_splits)


lemma Caller_blocked:
  "step_Caller body s = None \<Longrightarrow> caller s = C_done \<or> (caller s \<noteq> C_done \<and> starved s)"
  by (cases "caller s")
     (auto simp: step_Caller_def starved_def split: list.splits if_splits sum.splits option.splits)


lemma Decoder_blocked:
  "step_Decoder cap s = None \<Longrightarrow> caller s = C_done \<Longrightarrow>
     decoder s = D_none \<or> decoder s = D_done \<or> send_blocked cap s \<or> starved s"
  by (cases "decoder s")
     (auto simp: step_Decoder_def starved_def send_blocked_def
        split: list.splits if_splits sum.splits)


lemma Closer_blocked:
  "step_Closer s = None \<Longrightarrow> closer s = W_done \<or> wg s \<noteq> 0"
  by (cases "closer s") (auto simp: step_Closer_def split: if_splits)


lemma quiescent_closed:
  assumes "wg_inv s" "quiescent cap body s"
  shows "closes s = 1 \<or> send_blocked cap s \<or> starved s"
proof -
  from assms(2) have c: "step_Caller body s = None" and d: "step_Decoder cap s = None"
    and w: "step_Closer s = None"
    by (simp_all add: quiescent_def)
  show ?thesis
  proof (cases "caller s = C_done")
    case False
    with Caller_blocked [OF c] show ?thesis by simp
  next
    case True
    from Decoder_blocked [OF d True] show ?thesis
    proof (elim disjE)
      assume "decoder s = D_none"
      with True assms(1) Closer_blocked [OF w] show ?thesis
        by (cases "closer s") (auto simp: inv_defs)
    next
      assume "decoder s = D_done"
      with True assms(1) Closer_blocked [OF w] show ?thesis
        by (cases "closer s") (auto simp: inv_defs)
    qed simp_all
  qed
qed


lemma step_weight:
  assumes "step cap body t s = Some s'"
  shows "weight s' < weight s"
proof (cases t)
  case Caller
  with assms show ?thesis
    by (cases "caller s")
       (auto simp: step_Caller_def weight_def
          split: option.splits list.splits if_splits sum.splits)
next
  case Closer
  with assms show ?thesis
    by (cases "closer s") (auto simp: step_Closer_def weight_def split: if_splits)
next
  case Decoder
  with assms show ?thesis
    by (cases "decoder s")
       (auto simp: step_Decoder_def weight_def split: list.splits if_splits sum.splits)
next
  case Receiver
  with assms show ?thesis
    by (auto simp: step_Receiver_def weight_def split: list.splits if_splits)
next
  case Abandon
  with assms show ?thesis
    by (auto simp: step_Abandon_def weight_def split: if_splits)
next
  case Server
  with assms show ?thesis
    by (auto simp: step_Server_def weight_def split: list.splits if_splits)
qed


lemma run_weight: "run cap body ts s = Some s' \<Longrightarrow> length ts + weight s' \<le> weight s"
proof (induction ts arbitrary: s)
  case Nil
  then show ?case by simp
next
  case (Cons t ts)
  from Cons.prems obtain s1 where s1: "step cap body t s = Some s1"
    and r: "run cap body ts s1 = Some s'"
    by (auto split: option.splits)
  from step_weight [OF s1] Cons.IH [OF r] show ?case by simp
qed

lemma blocked_stays:
  assumes i: "wg_inv s" and a: "\<not> active s" and d: "decoder s = D_send r"
    and f: "cap \<le> length (chan s)" and st: "step cap body t s = Some s'"
  shows "\<not> active s' \<and> decoder s' = D_send r \<and> cap \<le> length (chan s')
         \<and> closes s' = closes s"
proof (cases t)
  case Caller
  with st have "step_Caller body s = Some s'" by simp
  from Caller_shape [OF this] i a d f show ?thesis
    by (auto simp: inv_defs)
next
  case Closer
  with st have "step_Closer s = Some s'" by simp
  with i d show ?thesis
    by (cases "closer s") (auto simp: inv_defs step_Closer_def split: if_splits)
next
  case Decoder
  with st d f show ?thesis by (simp add: step_Decoder_def)
next
  case Receiver
  with st a show ?thesis by (simp add: step_Receiver_def)
next
  case Abandon
  with st a show ?thesis by (simp add: step_Abandon_def)
next
  case Server
  with st a d f show ?thesis
    by (auto simp: step_Server_def split: if_splits list.splits)
qed

lemma blocked_forever:
  "wg_inv s \<Longrightarrow> \<not> active s \<Longrightarrow> decoder s = D_send r \<Longrightarrow> cap \<le> length (chan s) \<Longrightarrow>
   run cap body ts s = Some s' \<Longrightarrow> closes s' = closes s"
proof (induction ts arbitrary: s)
  case Nil
  then show ?case by simp
next
  case (Cons t ts)
  from Cons.prems(5) obtain s1 where s1: "step cap body t s = Some s1"
    and r: "run cap body ts s1 = Some s'"
    by (auto split: option.splits)
  from wg_inv_step [OF Cons.prems(1) s1] blocked_stays [OF Cons.prems(1-4) s1]
    Cons.IH [OF _ _ _ _ r]
  show ?case by simp
qed

lemma waiting_not_closed:
  "wg_inv s \<Longrightarrow> starved s \<or> send_blocked cap s \<Longrightarrow> closes s = 0"
  by (cases "closer s"; cases "caller s"; cases "decoder s")
     (auto simp: inv_defs starved_def send_blocked_def)

text \<open>
  C9, as stated, fails: on a complete response with 101 frames that has arrived in
  full, when the consumer abandons the sequence before receiving anything, the
  decoder fills the buffer with 100 frames and blocks on the next send. In that
  state the caller has returned, the wait group is still one, the body has not been
  closed, and nothing can take a step: not the goroutines, not the consumer, not the
  server.
\<close>

theorem abandoned_stream_leaks:
  "run 100 (stream_of 101)
     (replicate 106 Server @ [Abandon] @ replicate 6 Caller @ replicate 201 Decoder)
     (init_sys (stream_of 101)) = Some leaked
   \<and> closes leaked = 0
   \<and> step 100 (stream_of 101) Caller leaked = None
   \<and> step 100 (stream_of 101) Closer leaked = None
   \<and> step 100 (stream_of 101) Decoder leaked = None
   \<and> step 100 (stream_of 101) Receiver leaked = None
   \<and> step 100 (stream_of 101) Abandon leaked = None
   \<and> step 100 (stream_of 101) Server leaked = None"
  by code_simp

text \<open>
  C9, amended. In every state a streamed call can reach once the response is there:
  the body has been closed at most once; if it has been closed, the caller has
  returned, the decoder was never started or has finished, and the wait group is
  zero; if no goroutine and no receive can take a step, then the body has been
  closed exactly once, or the decoder waits to send with the buffer full, or a
  goroutine waits for a part of the response that has not arrived; in the last two
  cases the body has not been closed; if the consumer has abandoned the sequence and
  the decoder waits to send with the buffer full, the body is never closed,
  whatever happens next.
\<close>

theorem body_closed_once:
  "reachable cap body s \<longrightarrow>
     closes s \<le> 1
   \<and> (closes s = 1 \<longrightarrow>
        caller s = C_done \<and> (decoder s = D_none \<or> decoder s = D_done) \<and> wg s = 0)
   \<and> (quiescent cap body s \<longrightarrow> closes s = 1 \<or> send_blocked cap s \<or> starved s)
   \<and> (starved s \<or> send_blocked cap s \<longrightarrow> closes s = 0)
   \<and> (\<not> active s \<and> send_blocked cap s \<longrightarrow>
        (\<forall>ts s'. run cap body ts s = Some s' \<longrightarrow> closes s' = 0))"
proof
  assume r: "reachable cap body s"
  then have i: "wg_inv s" by (rule reachable_wg_inv)
  note a = closes_le_1 [OF i]
  note b = closed_after_all [OF i]
  note c = quiescent_closed [OF i]
  note d = waiting_not_closed [OF i]
  have e: "\<not> active s \<and> send_blocked cap s \<longrightarrow>
        (\<forall>ts s'. run cap body ts s = Some s' \<longrightarrow> closes s' = 0)"
  proof (intro impI allI)
    fix ts s'
    assume h: "\<not> active s \<and> send_blocked cap s"
      and run: "run cap body ts s = Some s'"
    from h obtain f where f: "decoder s = D_send f" "cap \<le> length (chan s)"
      by (auto simp: send_blocked_def split: decoder_pc.splits)
    from h d have z: "closes s = 0" by blast
    from h f have "closes s' = closes s"
      using blocked_forever [OF i _ _ _ run] by blast
    with z show "closes s' = 0" by simp
  qed
  from a b c d e show "closes s \<le> 1
   \<and> (closes s = 1 \<longrightarrow>
        caller s = C_done \<and> (decoder s = D_none \<or> decoder s = D_done) \<and> wg s = 0)
   \<and> (quiescent cap body s \<longrightarrow> closes s = 1 \<or> send_blocked cap s \<or> starved s)
   \<and> (starved s \<or> send_blocked cap s \<longrightarrow> closes s = 0)
   \<and> (\<not> active s \<and> send_blocked cap s \<longrightarrow>
        (\<forall>ts s'. run cap body ts s = Some s' \<longrightarrow> closes s' = 0))"
    by blast
qed

theorem body_closed_once_witness:
  "run 100 (stream_of 1)
     (replicate 6 Server @ replicate 6 Caller @ [Decoder, Decoder, Receiver]
      @ replicate 4 Decoder @ [Closer, Closer]) (init_sys (stream_of 1)) = Some finished
   \<and> quiescent 100 (stream_of 1) finished \<and> closes finished = 1
   \<and> caller finished = C_done \<and> wg finished = 0
   \<and> run 100 (stream_of 2)
     (Abandon # replicate 7 Server @ replicate 6 Caller @ replicate 8 Decoder
      @ [Closer, Closer]) (init_sys (stream_of 2)) = Some abandoned_fits
   \<and> quiescent 100 (stream_of 2) abandoned_fits \<and> \<not> active abandoned_fits
   \<and> closes abandoned_fits = 1
   \<and> run 100 (stream_of 1) [Server, Server, Caller, Caller] (init_sys (stream_of 1)) =
       Some stalled
   \<and> quiescent 100 (stream_of 1) stalled \<and> starved stalled \<and> closes stalled = 0"
proof -
  have r1: "run 100 (stream_of 1)
     (replicate 6 Server @ replicate 6 Caller @ [Decoder, Decoder, Receiver]
      @ replicate 4 Decoder @ [Closer, Closer]) (init_sys (stream_of 1)) = Some finished"
    by code_simp
  have q1: "quiescent 100 (stream_of 1) finished \<and> \<not> send_blocked 100 finished
            \<and> \<not> starved finished"
    by code_simp
  have r2: "run 100 (stream_of 2)
     (Abandon # replicate 7 Server @ replicate 6 Caller @ replicate 8 Decoder
      @ [Closer, Closer]) (init_sys (stream_of 2)) = Some abandoned_fits"
    by code_simp
  have q2: "quiescent 100 (stream_of 2) abandoned_fits \<and> \<not> send_blocked 100 abandoned_fits
            \<and> \<not> starved abandoned_fits \<and> \<not> active abandoned_fits"
    by code_simp
  have r3: "run 100 (stream_of 1) [Server, Server, Caller, Caller] (init_sys (stream_of 1)) =
       Some stalled"
    by code_simp
  have q3: "quiescent 100 (stream_of 1) stalled \<and> starved stalled"
    by code_simp
  note T1 = body_closed_once [of 100 "stream_of 1" finished, THEN mp,
      OF run_reachable [OF reachable.start r1]]
  note T2 = body_closed_once [of 100 "stream_of 2" abandoned_fits, THEN mp,
      OF run_reachable [OF reachable.start r2]]
  note T3 = body_closed_once [of 100 "stream_of 1" stalled, THEN mp,
      OF run_reachable [OF reachable.start r3]]
  from T1 q1 have c1: "closes finished = 1" by blast
  with T1 have d1: "caller finished = C_done \<and> wg finished = 0" by blast
  from T2 q2 have c2: "closes abandoned_fits = 1" by blast
  from T3 q3 have c3: "closes stalled = 0" by blast
  from r1 q1 c1 d1 r2 q2 c2 r3 q3 c3 show ?thesis by blast
qed

text \<open>
  A response of finitely many elements allows no run longer than the weight of the
  state it starts from, so every call on such a response comes to a state in which
  no goroutine and no receive can take a step.
\<close>

lemma runs_are_finite:
  "run cap body ts (init_sys body) = Some s \<Longrightarrow> length ts \<le> weight (init_sys body)"
  using run_weight [of cap body ts "init_sys body" s] by simp

end
